theory Spec2Isabelle
  imports Main "HOL-Library.Word"
begin

section \<open>Go values shared by the components\<close>

text \<open>
  The engine is written in Go. Its integers are modelled as follows: \<open>int64\<close> file
  sizes and byte counts are \<open>64 word\<close> (addition and subtraction wrap, \<open>sint\<close> reads
  the signed value); the event counters of \<open>SyncStats\<close> are \<open>int\<close>, because each of
  them is incremented at most twice per source entry and a Go slice has fewer than
  \<open>2 ^ 63\<close> entries, so they cannot wrap; \<open>len\<close> of a slice is \<open>length\<close>.
  A Go \<open>string\<close> is a byte sequence, here \<open>string\<close> (a list of 8-bit characters).
\<close>

type_synonym int64 = "64 word"

subsection \<open>Errors\<close>

text \<open>
  A Go \<open>error\<close> is an interface value. The datatype below lists the dynamic types an
  error of this program can have: the two sentinel errors of package \<open>context\<close>, the
  sentinel \<open>fs.ErrNotExist\<close>, a \<open>syscall.Errno\<close>, an \<open>errors.New\<close> or
  \<open>fmt.Errorf\<close> value with no wrapped cause (\<open>ErrorString\<close>), an \<open>*fs.PathError\<close>, a
  \<open>fmt.Errorf\<close> value whose format ends in \<open>%w\<close> (\<open>WrapError prefix cause\<close>; every
  wrapping format of the source has this shape), and the program's own
  \<open>*RetryableError\<close> (fields \<open>Err\<close>, \<open>Retryable\<close>, \<open>Fatal\<close>). A nil error is \<open>None\<close> of
  \<open>goerror option\<close>.
\<close>

datatype errno =
  ENOENT | EACCES | EPERM | ENOSPC | EIO | EEXIST | ENOTDIR | EISDIR | ETIMEDOUT | ECONNRESET

datatype goerror =
    ContextCanceled
  | ContextDeadlineExceeded
  | ErrNotExist
  | IoEOF
  | Errno errno
  | ErrorString string
  | PathError string string goerror
  | WrapError string goerror
  | RetryableError goerror bool bool

fun errno_Error :: "errno \<Rightarrow> string" where
  "errno_Error ENOENT = ''no such file or directory''"
| "errno_Error EACCES = ''permission denied''"
| "errno_Error EPERM = ''operation not permitted''"
| "errno_Error ENOSPC = ''no space left on device''"
| "errno_Error EIO = ''input/output error''"
| "errno_Error EEXIST = ''file exists''"
| "errno_Error ENOTDIR = ''not a directory''"
| "errno_Error EISDIR = ''is a directory''"
| "errno_Error ETIMEDOUT = ''connection timed out''"
| "errno_Error ECONNRESET = ''connection reset by peer''"

text \<open>The method \<open>Error()\<close> of each dynamic type; \<open>RetryableError.Error\<close> is retry.go:25.\<close>

fun Error :: "goerror \<Rightarrow> string" where
  "Error ContextCanceled = ''context canceled''"
| "Error ContextDeadlineExceeded = ''context deadline exceeded''"
| "Error ErrNotExist = ''file does not exist''"
| "Error IoEOF = ''EOF''"
| "Error (Errno n) = errno_Error n"
| "Error (ErrorString s) = s"
| "Error (PathError opn path e) = opn @ '' '' @ path @ '': '' @ Error e"
| "Error (WrapError prefix e) = prefix @ Error e"
| "Error (RetryableError e r f) = Error e"

text \<open>
  \<open>Unwrap\<close> of each type, and \<open>errors.Is\<close> for a sentinel target: the chain of
  \<open>Unwrap\<close> is followed and each link compared with the target.
\<close>

fun Unwrap :: "goerror \<Rightarrow> goerror option" where
  "Unwrap (PathError opn path e) = Some e"
| "Unwrap (WrapError prefix e) = Some e"
| "Unwrap (RetryableError e r f) = Some e"
| "Unwrap e = None"

fun errors_Is :: "goerror \<Rightarrow> goerror \<Rightarrow> bool" where
  "errors_Is (PathError opn path e) target = errors_Is e target"
| "errors_Is (WrapError prefix e) target = errors_Is e target"
| "errors_Is (RetryableError e r f) target = errors_Is e target"
| "errors_Is e target = (e = target)"

text \<open>
  \<open>errors.As(err, &retryableErr)\<close> of retry.go:64: the first \<open>*RetryableError\<close> on the
  chain, as the pair of its flags \<open>(Retryable, Fatal)\<close>.
\<close>

fun errors_As_Retryable :: "goerror \<Rightarrow> (bool \<times> bool) option" where
  "errors_As_Retryable (RetryableError e r f) = Some (r, f)"
| "errors_As_Retryable (PathError opn path e) = errors_As_Retryable e"
| "errors_As_Retryable (WrapError prefix e) = errors_As_Retryable e"
| "errors_As_Retryable e = None"

text \<open>
  \<open>os.IsNotExist\<close> predates \<open>errors.Is\<close>: it looks under one \<open>*PathError\<close> (and the
  \<open>*LinkError\<close> and \<open>*SyscallError\<close> this program never builds) and at nothing else,
  so it does not follow the \<open>Unwrap\<close> of a \<open>fmt.Errorf\<close> value.
\<close>

fun underlyingError :: "goerror \<Rightarrow> goerror" where
  "underlyingError (PathError opn path e) = e"
| "underlyingError e = e"

definition os_IsNotExist :: "goerror \<Rightarrow> bool" where
  "os_IsNotExist err =
     (underlyingError err = ErrNotExist \<or> underlyingError err = Errno ENOENT)"

subsection \<open>Time\<close>

text \<open>
  A \<open>time.Time\<close> read from the file system is an instant; it is modelled as the number
  of nanoseconds since the Unix epoch. \<open>Equal\<close> and \<open>After\<close> compare instants,
  \<open>Unix\<close> is the number of whole seconds, and \<open>Sub\<close> is the difference as a
  \<open>Duration\<close> (an \<open>int64\<close> of nanoseconds), saturating at the least and greatest
  duration.
\<close>

type_synonym Time = int
type_synonym Duration = int

definition minDuration :: Duration where
  "minDuration = - (2 ^ 63)"

definition maxDuration :: Duration where
  "maxDuration = 2 ^ 63 - 1"

definition time_Minute :: Duration where
  "time_Minute = 60 * 1000000000"

definition time_Equal :: "Time \<Rightarrow> Time \<Rightarrow> bool" where
  "time_Equal t u = (t = u)"

definition time_After :: "Time \<Rightarrow> Time \<Rightarrow> bool" where
  "time_After t u = (u < t)"

definition time_Sub :: "Time \<Rightarrow> Time \<Rightarrow> Duration" where
  "time_Sub t u =
     (if t - u < minDuration then minDuration
      else if maxDuration < t - u then maxDuration
      else t - u)"

definition time_Unix :: "Time \<Rightarrow> int" where
  "time_Unix t = t div 1000000000"

subsection \<open>types.go\<close>

record FileInfo =
  Path :: string
  Size :: int64
  ModTime :: Time
  Mode :: "32 word"
  IsDir :: bool
  Checksum :: string
  ChecksumAlgo :: string

record SyncOptions =
  DryRun :: bool
  Force :: bool
  Recursive :: bool
  PreservePerms :: bool
  PreserveTimes :: bool
  DeleteExtraneous :: bool
  ChecksumVerify :: bool
  Workers :: int
  BufferSize :: int64
  Timeout :: Duration

record SyncStats =
  FilesScanned :: int
  FilesChanged :: int
  FilesCreated :: int
  FilesModified :: int
  FilesDeleted :: int
  BytesTransferred :: int64
  ConflictsFound :: int
  ConflictsResolved :: int
  ErrorsEncountered :: int

section \<open>Retry manager: error classification (retry.go)\<close>

text \<open>
  The source has its own substring test. \<open>indexContains\<close> tries every start index
  \<open>i\<close> with \<open>i \<le> len(str) - len(substr)\<close>; the bound is computed over \<open>int\<close> as in
  Go, so that no index is tried when \<open>substr\<close> is the longer one.
\<close>

definition indexContains :: "string \<Rightarrow> string \<Rightarrow> bool" where
  "indexContains str substr =
     list_ex (\<lambda>i. take (length substr) (drop i str) = substr)
       [0 ..< nat (int (length str) - int (length substr) + 1)]"

definition contains :: "string \<Rightarrow> string \<Rightarrow> bool" where
  "contains str substr =
     (length str \<ge> length substr \<and>
      (str = substr \<or>
       (length str > length substr \<and>
        (take (length substr) str = substr \<or>
         drop (length str - length substr) str = substr \<or>
         indexContains str substr))))"

definition networkPatterns :: "string list" where
  "networkPatterns =
     [''connection refused'', ''connection reset'', ''timeout'',
      ''network is unreachable'', ''temporary failure'', ''no route to host'']"

definition permissionPatterns :: "string list" where
  "permissionPatterns =
     [''permission denied'', ''access denied'', ''operation not permitted'',
      ''insufficient privileges'']"

definition diskFullPatterns :: "string list" where
  "diskFullPatterns =
     [''no space left on device'', ''disk full'', ''insufficient space'',
      ''not enough space'']"

definition notFoundPatterns :: "string list" where
  "notFoundPatterns =
     [''no such file or directory'', ''file not found'', ''path not found'', ''not found'']"

definition ioPatterns :: "string list" where
  "ioPatterns =
     [''i/o error'', ''input/output error'', ''read error'', ''write error'',
      ''broken pipe'', ''connection broken'']"

definition isNetworkError :: "goerror \<Rightarrow> bool" where
  "isNetworkError err = list_ex (contains (Error err)) networkPatterns"

definition isPermissionError :: "goerror \<Rightarrow> bool" where
  "isPermissionError err = list_ex (contains (Error err)) permissionPatterns"

definition isDiskFullError :: "goerror \<Rightarrow> bool" where
  "isDiskFullError err = list_ex (contains (Error err)) diskFullPatterns"

definition isContextError :: "goerror \<Rightarrow> bool" where
  "isContextError err =
     (errors_Is err ContextCanceled \<or> errors_Is err ContextDeadlineExceeded)"

definition isNotFoundError :: "goerror \<Rightarrow> bool" where
  "isNotFoundError err = list_ex (contains (Error err)) notFoundPatterns"

definition isIOError :: "goerror \<Rightarrow> bool" where
  "isIOError err = list_ex (contains (Error err)) ioPatterns"

definition NewRetryableError :: "goerror \<Rightarrow> bool \<Rightarrow> goerror" where
  "NewRetryableError err retryable = RetryableError err retryable False"

definition NewFatalError :: "goerror \<Rightarrow> goerror" where
  "NewFatalError err = RetryableError err False True"

text \<open>
  \<open>ClassifyError\<close> (retry.go:133), with the checks in the order of the source. The
  result is a \<open>*RetryableError\<close>, nil for a nil error.
\<close>

definition ClassifyError :: "goerror option \<Rightarrow> goerror option" where
  "ClassifyError err =
     (case err of
        None \<Rightarrow> None
      | Some e \<Rightarrow>
          if isNetworkError e then Some (NewRetryableError e True)
          else if isPermissionError e then Some (NewRetryableError e False)
          else if isDiskFullError e then Some (NewRetryableError e False)
          else if isContextError e then Some (NewFatalError e)
          else if isNotFoundError e then Some (NewRetryableError e False)
          else if isIOError e then Some (NewRetryableError e True)
          else Some (NewRetryableError e True))"

text \<open>The fields \<open>Retryable\<close> and \<open>Fatal\<close> of a classification.\<close>

fun Retryable :: "goerror \<Rightarrow> bool" where
  "Retryable (RetryableError e r f) = r"
| "Retryable e = False"

fun Fatal :: "goerror \<Rightarrow> bool" where
  "Fatal (RetryableError e r f) = f"
| "Fatal e = False"

section \<open>Error aggregator (errors.go)\<close>

datatype ErrorCategory =
    ErrorCategoryUnknown
  | ErrorCategoryNetwork
  | ErrorCategoryPermission
  | ErrorCategoryDisk
  | ErrorCategoryCorruption
  | ErrorCategoryConfiguration
  | ErrorCategoryCancellation

text \<open>
  \<open>SyncError\<close>. The field \<open>Timestamp\<close> is filled from \<open>time.Now()\<close>; the constructors
  below take the clock's reading as their first argument.
\<close>

record SyncError =
  Category :: ErrorCategory
  Operation :: string
  ErrPath :: string
  Message :: string
  Underlying :: goerror
  Timestamp :: Time
  Recoverable :: bool
  Suggestion :: string

definition NewNetworkError :: "Time \<Rightarrow> string \<Rightarrow> string \<Rightarrow> goerror \<Rightarrow> SyncError" where
  "NewNetworkError now operation path err =
     \<lparr>Category = ErrorCategoryNetwork, Operation = operation, ErrPath = path,
      Message = Error err, Underlying = err, Timestamp = now, Recoverable = True,
      Suggestion = ''Check network connectivity and try again''\<rparr>"

definition NewPermissionError :: "Time \<Rightarrow> string \<Rightarrow> string \<Rightarrow> goerror \<Rightarrow> SyncError" where
  "NewPermissionError now operation path err =
     \<lparr>Category = ErrorCategoryPermission, Operation = operation, ErrPath = path,
      Message = Error err, Underlying = err, Timestamp = now, Recoverable = False,
      Suggestion = ''Check file permissions or run with elevated privileges''\<rparr>"

definition NewDiskError :: "Time \<Rightarrow> string \<Rightarrow> string \<Rightarrow> goerror \<Rightarrow> SyncError" where
  "NewDiskError now operation path err =
     \<lparr>Category = ErrorCategoryDisk, Operation = operation, ErrPath = path,
      Message = Error err, Underlying = err, Timestamp = now, Recoverable = False,
      Suggestion = ''Free up disk space and try again''\<rparr>"

definition NewCancellationError :: "Time \<Rightarrow> string \<Rightarrow> string \<Rightarrow> goerror \<Rightarrow> SyncError" where
  "NewCancellationError now operation path err =
     \<lparr>Category = ErrorCategoryCancellation, Operation = operation, ErrPath = path,
      Message = Error err, Underlying = err, Timestamp = now, Recoverable = False,
      Suggestion = ''Operation was cancelled by user or timeout''\<rparr>"

text \<open>
  \<open>ClassifySyncError\<close> (errors.go:233) for a non-nil error (its only call, in
  \<open>syncFile\<close>, passes one).
\<close>

definition ClassifySyncError :: "Time \<Rightarrow> string \<Rightarrow> string \<Rightarrow> goerror \<Rightarrow> SyncError" where
  "ClassifySyncError now operation path err =
     (let retryableErr = ClassifyError (Some err) in
      if isNetworkError err then NewNetworkError now operation path err
      else if isPermissionError err then NewPermissionError now operation path err
      else if isDiskFullError err then NewDiskError now operation path err
      else if isContextError err then NewCancellationError now operation path err
      else \<lparr>Category = ErrorCategoryUnknown, Operation = operation, ErrPath = path,
            Message = Error err, Underlying = err, Timestamp = now,
            Recoverable = (case retryableErr of None \<Rightarrow> False | Some r \<Rightarrow> Retryable r),
            Suggestion = ''Check logs for more details and try again''\<rparr>)"

text \<open>\<open>ErrorHandler\<close>: the slice \<open>errors\<close>, oldest first, and the limit \<open>maxErrors\<close>.\<close>

record ErrorHandler =
  errors :: "SyncError list"
  maxErrors :: int

definition NewErrorHandler :: "int \<Rightarrow> ErrorHandler" where
  "NewErrorHandler n =
     \<lparr>errors = [], maxErrors = (if n \<le> 0 then 1000 else n)\<rparr>"

text \<open>
  \<open>AddError\<close> (errors.go:164). The slice expression \<open>eh.errors[1:]\<close> panics on an
  empty slice; that happens only when \<open>maxErrors \<le> 0\<close>, which \<open>NewErrorHandler\<close>
  excludes, and the model then keeps the empty list.
\<close>

definition AddError :: "ErrorHandler \<Rightarrow> SyncError \<Rightarrow> ErrorHandler" where
  "AddError eh err =
     (let es = (if int (length (errors eh)) \<ge> maxErrors eh then drop 1 (errors eh)
                else errors eh)
      in eh\<lparr>errors := es @ [err]\<rparr>)"

definition GetErrors :: "ErrorHandler \<Rightarrow> SyncError list" where
  "GetErrors eh = errors eh"

definition GetErrorsByCategory :: "ErrorHandler \<Rightarrow> ErrorCategory \<Rightarrow> SyncError list" where
  "GetErrorsByCategory eh category = filter (\<lambda>e. Category e = category) (errors eh)"

definition Clear :: "ErrorHandler \<Rightarrow> ErrorHandler" where
  "Clear eh = eh\<lparr>errors := []\<rparr>"

definition ErrorCount :: "ErrorHandler \<Rightarrow> int" where
  "ErrorCount eh = int (length (errors eh))"

text \<open>
  \<open>GetSummary\<close> (errors.go:223): a Go map from category to count, built by
  \<open>summary[err.Category]++\<close> over the stored errors; a category with no stored error
  has no entry.
\<close>

definition summary_incr :: "(ErrorCategory \<rightharpoonup> int) \<Rightarrow> SyncError \<Rightarrow> (ErrorCategory \<rightharpoonup> int)" where
  "summary_incr summary err =
     summary(Category err \<mapsto> (case summary (Category err) of None \<Rightarrow> 0 | Some c \<Rightarrow> c) + 1)"

definition GetSummary :: "ErrorHandler \<Rightarrow> (ErrorCategory \<rightharpoonup> int)" where
  "GetSummary eh = foldl summary_incr Map.empty (errors eh)"

text \<open>
  The operations a client can apply to an aggregator, and the aggregators reachable
  from \<open>NewErrorHandler n\<close> by them (the fields are unexported, so there is no other
  way to build or change one).
\<close>

datatype eh_op = OpAddError SyncError | OpClear

fun eh_apply :: "ErrorHandler \<Rightarrow> eh_op \<Rightarrow> ErrorHandler" where
  "eh_apply eh (OpAddError e) = AddError eh e"
| "eh_apply eh OpClear = Clear eh"

definition eh_run :: "int \<Rightarrow> eh_op list \<Rightarrow> ErrorHandler" where
  "eh_run n ops = foldl eh_apply (NewErrorHandler n) ops"

section \<open>Conflict resolver (resolver.go)\<close>

datatype ConflictType =
    ConflictSizesDiffer
  | ConflictModTimesDiffer
  | ConflictChecksumsDiffer
  | ConflictBothModified

datatype ConflictResolution =
    ResolutionUseSource
  | ResolutionUseDestination
  | ResolutionSkip
  | ResolutionBackupAndUseSource
  | ResolutionMerge

record ConflictInfo =
  ConflictPath :: string
  SourceInfo :: FileInfo
  DestInfo :: FileInfo
  Conflict :: ConflictType

text \<open>The strategy is a string (\<open>config.ConflictStrategy\<close>); the constants of package config.\<close>

definition ConflictNewest :: string where "ConflictNewest = ''newest''"
definition ConflictSource :: string where "ConflictSource = ''source''"
definition ConflictDestination :: string where "ConflictDestination = ''destination''"
definition ConflictInteractive :: string where "ConflictInteractive = ''interactive''"
definition ConflictSmart :: string where "ConflictSmart = ''smart''"
definition ConflictSkip :: string where "ConflictSkip = ''skip''"

record ConflictResolver =
  strategy :: string
  backup :: bool
  backupDir :: string
  interactive :: bool

record ConflictConfig =
  cfgStrategy :: string
  cfgBackup :: bool
  cfgBackupDir :: string
  cfgInteractive :: bool

definition NewConflictResolver :: "ConflictConfig option \<Rightarrow> ConflictResolver" where
  "NewConflictResolver cfg =
     (let c = (case cfg of
                 None \<Rightarrow> \<lparr>cfgStrategy = ConflictNewest, cfgBackup = False,
                           cfgBackupDir = [], cfgInteractive = False\<rparr>
               | Some c \<Rightarrow> c)
      in \<lparr>strategy = cfgStrategy c, backup = cfgBackup c,
          backupDir = (if cfgBackupDir c = [] then ''.relay-backups'' else cfgBackupDir c),
          interactive = cfgInteractive c\<rparr>)"

definition resolveByNewest :: "ConflictInfo \<Rightarrow> ConflictResolution" where
  "resolveByNewest conflict =
     (if time_After (ModTime (SourceInfo conflict)) (ModTime (DestInfo conflict))
        then ResolutionUseSource
      else if time_After (ModTime (DestInfo conflict)) (ModTime (SourceInfo conflict))
        then ResolutionUseDestination
      else ResolutionUseSource)"

text \<open>
  \<open>resolveSmart\<close> (resolver.go:125). \<open>sizeDiff\<close> is an \<open>int64\<close> subtraction (it wraps)
  compared as a signed number; \<open>timeDiff\<close> is a \<open>Duration\<close>.
\<close>

definition resolveSmart :: "ConflictInfo \<Rightarrow> ConflictResolution" where
  "resolveSmart conflict =
     (let sizeDiff = Size (SourceInfo conflict) - Size (DestInfo conflict);
          timeDiff = time_Sub (ModTime (SourceInfo conflict)) (ModTime (DestInfo conflict))
      in if timeDiff > time_Minute then ResolutionUseSource
         else if timeDiff < - time_Minute then ResolutionUseDestination
         else if sint sizeDiff > 1024 then ResolutionUseSource
         else if sint sizeDiff < - 1024 then ResolutionUseDestination
         else resolveByNewest conflict)"

text \<open>
  \<open>ResolveConflict\<close> (resolver.go:93). \<open>resolveInteractively\<close> prints the conflict and
  reads the answer from the terminal; what it returns is the parameter \<open>ask\<close> (a
  resolution and an optional error).
\<close>

definition ResolveConflict ::
  "ConflictResolver \<Rightarrow> (ConflictInfo \<Rightarrow> ConflictResolution \<times> goerror option) \<Rightarrow>
   ConflictInfo \<Rightarrow> ConflictResolution \<times> goerror option" where
  "ResolveConflict cr ask conflict =
     (if interactive cr then ask conflict
      else if strategy cr = ConflictNewest then (resolveByNewest conflict, None)
      else if strategy cr = ConflictSource then (ResolutionUseSource, None)
      else if strategy cr = ConflictDestination then (ResolutionUseDestination, None)
      else if strategy cr = ConflictSmart then (resolveSmart conflict, None)
      else if strategy cr = ConflictSkip then (ResolutionSkip, None)
      else (resolveByNewest conflict, None))"

text \<open>
  \<open>DetectConflict\<close> (resolver.go:332) for two non-nil records: the first difference
  in the order size, modification time, digest; \<open>None\<close> is the nil result.
\<close>

definition DetectConflict :: "FileInfo \<Rightarrow> FileInfo \<Rightarrow> ConflictInfo option" where
  "DetectConflict source dest =
     (if Size source \<noteq> Size dest then
        Some \<lparr>ConflictPath = Path source, SourceInfo = source, DestInfo = dest,
              Conflict = ConflictSizesDiffer\<rparr>
      else if \<not> time_Equal (ModTime source) (ModTime dest) then
        Some \<lparr>ConflictPath = Path source, SourceInfo = source, DestInfo = dest,
              Conflict = ConflictModTimesDiffer\<rparr>
      else if Checksum source \<noteq> [] \<and> Checksum dest \<noteq> [] \<and> Checksum source \<noteq> Checksum dest then
        Some \<lparr>ConflictPath = Path source, SourceInfo = source, DestInfo = dest,
              Conflict = ConflictChecksumsDiffer\<rparr>
      else None)"

section \<open>Scanner (scanner.go)\<close>

type_synonym bytes = "8 word list"

record cacheEntry =
  checksum :: string
  modTime :: int
  entrySize :: int64

record FileScanner =
  maxConcurrency :: int
  checksumAlgo :: string
  cache :: "string \<rightharpoonup> cacheEntry"

text \<open>\<open>NewFileScanner\<close>; the second argument is \<open>runtime.GOMAXPROCS(0)\<close>.\<close>

definition NewFileScanner :: "int \<Rightarrow> int \<Rightarrow> FileScanner" where
  "NewFileScanner n gomaxprocs =
     \<lparr>maxConcurrency = (if n \<le> 0 then gomaxprocs * 2 else n),
      checksumAlgo = ''blake3'', cache = Map.empty\<rparr>"

definition SetChecksumAlgorithm :: "FileScanner \<Rightarrow> string \<Rightarrow> FileScanner" where
  "SetChecksumAlgorithm s algo = s\<lparr>checksumAlgo := algo\<rparr>"

definition ClearCache :: "FileScanner \<Rightarrow> FileScanner" where
  "ClearCache s = s\<lparr>cache := Map.empty\<rparr>"

text \<open>
  The two hash functions are libraries (\<open>zeebo/blake3\<close>, \<open>crypto/sha256\<close>); the model
  takes them as parameters, each from the bytes of a file to the hexadecimal digest.
\<close>

record hashers =
  blake3_hex :: "bytes \<Rightarrow> string"
  sha256_hex :: "bytes \<Rightarrow> string"

text \<open>
  \<open>calculateChecksum\<close> (scanner.go:186). The argument \<open>rd\<close> is what \<open>io.Copy\<close> from the
  reader gives: an error, or the bytes of the file. The default branch does not read.
\<close>

definition calculateChecksum :: "FileScanner \<Rightarrow> hashers \<Rightarrow> goerror + bytes \<Rightarrow> goerror + string" where
  "calculateChecksum s hs rd =
     (if checksumAlgo s = ''blake3'' then
        (case rd of Inl e \<Rightarrow> Inl e | Inr bs \<Rightarrow> Inr (blake3_hex hs bs))
      else if checksumAlgo s = ''sha256'' then
        (case rd of Inl e \<Rightarrow> Inl e | Inr bs \<Rightarrow> Inr (sha256_hex hs bs))
      else if checksumAlgo s = ''md5'' then
        (case rd of Inl e \<Rightarrow> Inl e | Inr bs \<Rightarrow> Inr (sha256_hex hs bs))
      else Inl (ErrorString (''unsupported checksum algorithm: '' @ checksumAlgo s)))"

text \<open>
  What the walk sees at one path: the result of \<open>d.Info()\<close>, of \<open>os.Open(path)\<close> and of
  reading the opened file.
\<close>

record file_stat =
  stSize :: int64
  stModTime :: Time
  stMode :: "32 word"
  stIsDir :: bool

record dir_entry =
  entPath :: string
  entInfo :: "goerror + file_stat"
  entOpen :: "goerror option"
  entRead :: "goerror + bytes"

text \<open>\<open>getChecksum\<close> (scanner.go:145): the scanner with its cache updated, and the result.\<close>

definition getChecksum ::
  "FileScanner \<Rightarrow> hashers \<Rightarrow> dir_entry \<Rightarrow> FileInfo \<Rightarrow> FileScanner \<times> (goerror + string)" where
  "getChecksum s hs ent info =
     (let cacheKey = entPath ent;
          hit = (case cache s cacheKey of
                   None \<Rightarrow> None
                 | Some entry \<Rightarrow>
                     if modTime entry = time_Unix (ModTime info) \<and> entrySize entry = Size info
                     then Some (checksum entry) else None)
      in case hit of
           Some c \<Rightarrow> (s, Inr c)
         | None \<Rightarrow>
             (case entOpen ent of
                Some e \<Rightarrow> (s, Inl (WrapError (''failed to open file '' @ entPath ent @ '': '') e))
              | None \<Rightarrow>
                  (case calculateChecksum s hs (entRead ent) of
                     Inl e \<Rightarrow>
                       (s, Inl (WrapError (''failed to calculate checksum for '' @ entPath ent @ '': '') e))
                   | Inr c \<Rightarrow>
                       (s\<lparr>cache := (cache s)(cacheKey \<mapsto>
                            \<lparr>checksum = c, modTime = time_Unix (ModTime info),
                             entrySize = Size info\<rparr>)\<rparr>,
                        Inr c))))"

text \<open>\<open>getFileInfo\<close> (scanner.go:120). \<open>info.Size > 0\<close> is a signed comparison.\<close>

definition getFileInfo ::
  "FileScanner \<Rightarrow> hashers \<Rightarrow> dir_entry \<Rightarrow> FileScanner \<times> (goerror + FileInfo)" where
  "getFileInfo s hs ent =
     (case entInfo ent of
        Inl e \<Rightarrow> (s, Inl (WrapError (''failed to get file info for '' @ entPath ent @ '': '') e))
      | Inr st \<Rightarrow>
          (let info = \<lparr>Path = entPath ent, Size = stSize st, ModTime = stModTime st,
                       Mode = stMode st, IsDir = stIsDir st, Checksum = [], ChecksumAlgo = []\<rparr>
           in if \<not> IsDir info \<and> 0 < sint (Size info) then
                (case getChecksum s hs ent info of
                   (s', Inr c) \<Rightarrow> (s', Inr (info\<lparr>Checksum := c, ChecksumAlgo := checksumAlgo s\<rparr>))
                 | (s', Inl e) \<Rightarrow> (s', Inr info))
              else (s, Inr info)))"

text \<open>
  What \<open>filepath.WalkDir\<close> does for one root: the entries for which the callback was
  called without an error, the error the walk ended with (a directory that cannot be
  read, a missing root, a cancelled context), and the error of the final
  \<open>sem.Acquire\<close>.
\<close>

record walk_result =
  walkEntries :: "dir_entry list"
  walkErr :: "goerror option"
  acquireErr :: "goerror option"

text \<open>
  The per-entry work runs in goroutines that append to \<open>files\<close> under a mutex; the
  model runs them in the order of the walk. Each entry is a different path, so the
  record computed for an entry does not depend on that order; the order of \<open>files\<close>
  does, and nothing below relies on it.
\<close>

fun scan_entries ::
  "FileScanner \<Rightarrow> hashers \<Rightarrow> (string \<Rightarrow> FileInfo \<Rightarrow> bool) option \<Rightarrow> dir_entry list \<Rightarrow>
   FileScanner \<times> FileInfo list" where
  "scan_entries s hs flt [] = (s, [])"
| "scan_entries s hs flt (ent # ents) =
     (case getFileInfo s hs ent of
        (s', Inl e) \<Rightarrow> scan_entries s' hs flt ents
      | (s', Inr info) \<Rightarrow>
          (case flt of
             Some f \<Rightarrow>
               if \<not> f (entPath ent) info then scan_entries s' hs flt ents
               else (case scan_entries s' hs flt ents of (s'', files) \<Rightarrow> (s'', info # files))
           | None \<Rightarrow>
               (case scan_entries s' hs flt ents of (s'', files) \<Rightarrow> (s'', info # files))))"

definition ScanWithFilter ::
  "FileScanner \<Rightarrow> hashers \<Rightarrow> string \<Rightarrow> walk_result \<Rightarrow> (string \<Rightarrow> FileInfo \<Rightarrow> bool) option \<Rightarrow>
   FileScanner \<times> (goerror + FileInfo list)" where
  "ScanWithFilter s hs path w flt =
     (case scan_entries s hs flt (walkEntries w) of
        (s', files) \<Rightarrow>
          (case walkErr w of
             Some e \<Rightarrow> (s', Inl (WrapError (''failed to scan directory '' @ path @ '': '') e))
           | None \<Rightarrow>
               (case acquireErr w of
                  Some e \<Rightarrow> (s', Inl e)
                | None \<Rightarrow> (s', Inr files))))"

definition Scan ::
  "FileScanner \<Rightarrow> hashers \<Rightarrow> string \<Rightarrow> walk_result \<Rightarrow> FileScanner \<times> (goerror + FileInfo list)" where
  "Scan s hs path w = ScanWithFilter s hs path w None"

section \<open>Copier (src/unnamed/part_002)\<close>

subsection \<open>Formatting, contexts and the file system\<close>

text \<open>The verb \<open>%d\<close> of \<open>fmt\<close>: a decimal numeral, with a minus sign when negative.\<close>

fun show_nat :: "nat \<Rightarrow> string" where
  "show_nat n =
     (if n < 10 then [''0123456789'' ! n]
      else show_nat (n div 10) @ [''0123456789'' ! (n mod 10)])"

definition show_int :: "int \<Rightarrow> string" where
  "show_int i = (if i < 0 then CHR ''-'' # show_nat (nat (- i)) else show_nat (nat i))"

text \<open>
  A \<open>context.Context\<close> as the code sees it: \<open>None\<close> is never done; \<open>Some (k, err)\<close> is
  not yet done at the next \<open>k\<close> polls and done from then on, with \<open>ctx.Err() = err\<close>.
\<close>

type_synonym go_context = "(nat \<times> goerror) option"

fun ctx_poll :: "go_context \<Rightarrow> goerror option \<times> go_context" where
  "ctx_poll None = (None, None)"
| "ctx_poll (Some (0, err)) = (Some err, Some (0, err))"
| "ctx_poll (Some (Suc k, err)) = (None, Some (k, err))"

text \<open>
  The file system: a map from paths to nodes. Only the nodes at the paths named in a
  call are tracked (the ancestors that \<open>MkdirAll\<close> creates are not).
\<close>

datatype node =
    RegularFile bytes "32 word" Time
  | Directory "32 word" Time

type_synonym filesystem = "string \<rightharpoonup> node"

text \<open>
  \<open>filepath.Dir\<close> for a cleaned, slash-separated path: everything before the last
  separator, \<open>.\<close> when there is none, \<open>/\<close> when the only one is the first character.
\<close>

definition filepath_Dir :: "string \<Rightarrow> string" where
  "filepath_Dir p =
     (let d = rev (drop 1 (dropWhile (\<lambda>c. c \<noteq> CHR ''/'') (rev p)))
      in if CHR ''/'' \<notin> set p then ''.'' else if d = [] then ''/'' else d)"

text \<open>
  What the operating system does during one call of \<open>CopyFile\<close>, beyond the state of
  the file system: an injected failure for each system call (\<open>None\<close>: the call behaves
  as the file system's state says), the mode \<open>src.Stat()\<close> reports in
  \<open>canUseZeroCopy\<close>, the results of the successive \<open>Sendfile\<close> calls (bytes moved,
  error) and of the successive iterations of the buffered loop, the clock, and
  \<open>runtime.GOOS\<close>.
\<close>

record io_event =
  rdBytes :: bytes
  rdErr :: "goerror option"
  wrCount :: "int option"
  wrErr :: "goerror option"

record copy_env =
  failStat :: "goerror option"
  failMkdirAll :: "goerror option"
  failOpenDst :: "goerror option"
  failOpenSrc :: "goerror option"
  srcFstat :: "goerror + 32 word"
  sendfiles :: "(bytes \<times> goerror option) list"
  ioEvents :: "io_event list"
  failSync :: "goerror option"
  failChmod :: "goerror option"
  failChtimes :: "goerror option"
  failRemove :: "goerror option"
  now :: Time
  GOOS :: string

record os_FileInfo =
  fiSize :: int64
  fiMode :: "32 word"
  fiModTime :: Time
  fiIsDir :: bool

record FileCopier =
  bufferSize :: int64
  useZeroCopy :: bool
  preservePerms :: bool
  preserveTimes :: bool
  workers :: int

definition NewFileCopier :: "int64 \<Rightarrow> bool \<Rightarrow> int \<Rightarrow> FileCopier" where
  "NewFileCopier bufSize zeroCopy gomaxprocs =
     \<lparr>bufferSize = (if sint bufSize \<le> 0 then 64 * 1024 else bufSize),
      useZeroCopy = zeroCopy, preservePerms = True, preserveTimes = True,
      workers = gomaxprocs\<rparr>"

definition os_Stat :: "copy_env \<Rightarrow> filesystem \<Rightarrow> string \<Rightarrow> goerror + os_FileInfo" where
  "os_Stat env fs path =
     (case failStat env of
        Some e \<Rightarrow> Inl e
      | None \<Rightarrow>
          (case fs path of
             None \<Rightarrow> Inl (PathError ''stat'' path (Errno ENOENT))
           | Some (RegularFile c m t) \<Rightarrow>
               Inr \<lparr>fiSize = word_of_nat (length c), fiMode = m, fiModTime = t, fiIsDir = False\<rparr>
           | Some (Directory m t) \<Rightarrow>
               Inr \<lparr>fiSize = 0, fiMode = m, fiModTime = t, fiIsDir = True\<rparr>))"

definition os_MkdirAll :: "copy_env \<Rightarrow> filesystem \<Rightarrow> string \<Rightarrow> 32 word \<Rightarrow> filesystem \<times> goerror option" where
  "os_MkdirAll env fs path perm =
     (case failMkdirAll env of
        Some e \<Rightarrow> (fs, Some e)
      | None \<Rightarrow>
          (case fs path of
             None \<Rightarrow> (fs(path \<mapsto> Directory perm (now env)), None)
           | Some (Directory m t) \<Rightarrow> (fs, None)
           | Some (RegularFile c m t) \<Rightarrow> (fs, Some (PathError ''mkdir'' path (Errno ENOTDIR)))))"

text \<open>\<open>os.OpenFile(dst, O_WRONLY|O_CREATE|O_TRUNC, mode)\<close>: the file exists and is empty afterwards.\<close>

definition os_OpenFile_create :: "copy_env \<Rightarrow> filesystem \<Rightarrow> string \<Rightarrow> 32 word \<Rightarrow> filesystem \<times> goerror option" where
  "os_OpenFile_create env fs path perm =
     (case failOpenDst env of
        Some e \<Rightarrow> (fs, Some e)
      | None \<Rightarrow>
          (case fs path of
             None \<Rightarrow> (fs(path \<mapsto> RegularFile [] perm (now env)), None)
           | Some (RegularFile c m t) \<Rightarrow> (fs(path \<mapsto> RegularFile [] m (now env)), None)
           | Some (Directory m t) \<Rightarrow> (fs, Some (PathError ''open'' path (Errno EISDIR)))))"

definition os_Open :: "copy_env \<Rightarrow> filesystem \<Rightarrow> string \<Rightarrow> goerror option" where
  "os_Open env fs path =
     (case failOpenSrc env of
        Some e \<Rightarrow> Some e
      | None \<Rightarrow> (case fs path of None \<Rightarrow> Some (PathError ''open'' path (Errno ENOENT)) | Some n \<Rightarrow> None))"

text \<open>\<open>os.Remove(dst)\<close>; the source ignores its error, so only the file system is returned.\<close>

definition os_Remove :: "copy_env \<Rightarrow> filesystem \<Rightarrow> string \<Rightarrow> filesystem" where
  "os_Remove env fs path = (case failRemove env of Some e \<Rightarrow> fs | None \<Rightarrow> fs(path := None))"

definition os_Chmod :: "copy_env \<Rightarrow> filesystem \<Rightarrow> string \<Rightarrow> 32 word \<Rightarrow> filesystem \<times> goerror option" where
  "os_Chmod env fs path perm =
     (case failChmod env of
        Some e \<Rightarrow> (fs, Some e)
      | None \<Rightarrow>
          (case fs path of
             None \<Rightarrow> (fs, Some (PathError ''chmod'' path (Errno ENOENT)))
           | Some (RegularFile c m t) \<Rightarrow> (fs(path \<mapsto> RegularFile c perm t), None)
           | Some (Directory m t) \<Rightarrow> (fs(path \<mapsto> Directory perm t), None)))"

definition os_Chtimes :: "copy_env \<Rightarrow> filesystem \<Rightarrow> string \<Rightarrow> Time \<Rightarrow> filesystem \<times> goerror option" where
  "os_Chtimes env fs path mtime =
     (case failChtimes env of
        Some e \<Rightarrow> (fs, Some e)
      | None \<Rightarrow>
          (case fs path of
             None \<Rightarrow> (fs, Some (PathError ''chtimes'' path (Errno ENOENT)))
           | Some (RegularFile c m t) \<Rightarrow> (fs(path \<mapsto> RegularFile c m mtime), None)
           | Some (Directory m t) \<Rightarrow> (fs(path \<mapsto> Directory m mtime), None)))"

text \<open>Writing \<open>bs\<close> at the end of the open destination file.\<close>

definition fs_append :: "filesystem \<Rightarrow> string \<Rightarrow> bytes \<Rightarrow> filesystem" where
  "fs_append fs path bs =
     (case fs path of
        Some (RegularFile c m t) \<Rightarrow> fs(path \<mapsto> RegularFile (c @ bs) m t)
      | _ \<Rightarrow> fs)"

subsection \<open>The copy loops\<close>

text \<open>
  \<open>bufferedCopy\<close> (part_002:140), one equation per iteration: the result is
  \<open>(totalBytes, err)\<close> and the bytes written to the destination. When the list of
  events is used up, \<open>Read\<close> reports the end of the file.
\<close>

fun bufferedCopy :: "go_context \<Rightarrow> io_event list \<Rightarrow> int64 \<Rightarrow> bytes \<Rightarrow> (int64 \<times> goerror option) \<times> bytes" where
  "bufferedCopy ctx [] totalBytes out =
     (case ctx_poll ctx of
        (Some err, ctx') \<Rightarrow> ((totalBytes, Some err), out)
      | (None, ctx') \<Rightarrow> ((totalBytes, None), out))"
| "bufferedCopy ctx (ev # evs) totalBytes out =
     (case ctx_poll ctx of
        (Some err, ctx') \<Rightarrow> ((totalBytes, Some err), out)
      | (None, ctx') \<Rightarrow>
          (let bytesRead = int (length (rdBytes ev));
               bytesWritten = (case wrCount ev of None \<Rightarrow> bytesRead | Some n \<Rightarrow> n);
               total' = (if bytesRead > 0 then totalBytes + word_of_int bytesWritten else totalBytes);
               out' = (if bytesRead > 0 then out @ take (nat bytesWritten) (rdBytes ev) else out)
           in if bytesRead > 0 \<and> wrErr ev \<noteq> None then ((total', wrErr ev), out')
              else if bytesRead > 0 \<and> bytesWritten \<noteq> bytesRead then
                ((total', Some (ErrorString (''short write: expected '' @ show_int bytesRead @
                                 '', wrote '' @ show_int bytesWritten))), out')
              else if rdErr ev = Some IoEOF then ((total', None), out')
              else if rdErr ev \<noteq> None then ((total', rdErr ev), out')
              else bufferedCopy ctx' evs total' out'))"

text \<open>
  \<open>zeroCopyLinux\<close> (the Linux file at the end of src/unnamed/part_000), one equation per \<open>Sendfile\<close> call. On a
  \<open>Sendfile\<close> error the result is that of \<open>bufferedCopy\<close>, whose count starts at zero.
  The chunk size only bounds what one \<open>Sendfile\<close> call may move, which is given here
  by the environment. When the list of results is used up, \<open>Sendfile\<close> moves no byte.
\<close>

fun zeroCopyLinux ::
  "go_context \<Rightarrow> (bytes \<times> goerror option) list \<Rightarrow> io_event list \<Rightarrow> int64 \<Rightarrow> int64 \<Rightarrow> bytes \<Rightarrow>
   (int64 \<times> goerror option) \<times> bytes" where
  "zeroCopyLinux ctx [] evs sz totalBytes out =
     (if \<not> sint totalBytes < sint sz then ((totalBytes, None), out)
      else (case ctx_poll ctx of
              (Some err, ctx') \<Rightarrow> ((totalBytes, Some err), out)
            | (None, ctx') \<Rightarrow> ((totalBytes, None), out)))"
| "zeroCopyLinux ctx ((moved, serr) # rest) evs sz totalBytes out =
     (if \<not> sint totalBytes < sint sz then ((totalBytes, None), out)
      else (case ctx_poll ctx of
              (Some err, ctx') \<Rightarrow> ((totalBytes, Some err), out)
            | (None, ctx') \<Rightarrow>
                (case serr of
                   Some e \<Rightarrow> bufferedCopy ctx' evs 0 out
                 | None \<Rightarrow>
                     if moved = [] then ((totalBytes, None), out)
                     else zeroCopyLinux ctx' rest evs sz
                            (totalBytes + word_of_nat (length moved)) (out @ moved))))"

definition ModeType :: "32 word" where
  "ModeType = 0x8F280000"

definition canUseZeroCopy :: "FileCopier \<Rightarrow> copy_env \<Rightarrow> bool" where
  "canUseZeroCopy fc env =
     (if \<not> useZeroCopy fc then False
      else (case srcFstat env of
              Inl e \<Rightarrow> False
            | Inr m \<Rightarrow> if and m ModeType \<noteq> 0 then False else True))"

definition zeroCopy ::
  "copy_env \<Rightarrow> go_context \<Rightarrow> int64 \<Rightarrow> (int64 \<times> goerror option) \<times> bytes" where
  "zeroCopy env ctx sz =
     (if GOOS env = ''linux'' then zeroCopyLinux ctx (sendfiles env) (ioEvents env) sz 0 []
      else bufferedCopy ctx (ioEvents env) 0 [])"

subsection \<open>CopyFile\<close>

text \<open>The permission bits \<open>0o750\<close> of the directories the copier creates.\<close>

definition perm_0o750 :: "32 word" where
  "perm_0o750 = 0x1E8"

text \<open>
  \<open>copyRegularFile\<close> (part_002:51): the file system after the call and the returned
  error. The deferred \<open>Close\<close> calls do not change what is tracked here.
\<close>

definition copyRegularFile ::
  "FileCopier \<Rightarrow> copy_env \<Rightarrow> go_context \<Rightarrow> filesystem \<Rightarrow> string \<Rightarrow> string \<Rightarrow> os_FileInfo \<Rightarrow>
   filesystem \<times> goerror option" where
  "copyRegularFile fc env ctx fs src dst srcInfo =
     (case os_MkdirAll env fs (filepath_Dir dst) perm_0o750 of
        (fs1, Some e) \<Rightarrow> (fs1, Some (WrapError ''failed to create destination directory: '' e))
      | (fs1, None) \<Rightarrow>
     (case os_OpenFile_create env fs1 dst (fiMode srcInfo) of
        (fs2, Some e) \<Rightarrow>
          (fs2, Some (WrapError (''failed to create destination file '' @ dst @ '': '') e))
      | (fs2, None) \<Rightarrow>
     (case os_Open env fs2 src of
        Some e \<Rightarrow> (fs2, Some (WrapError (''failed to open source file '' @ src @ '': '') e))
      | None \<Rightarrow>
     (case (if useZeroCopy fc \<and> canUseZeroCopy fc env then zeroCopy env ctx (fiSize srcInfo)
            else bufferedCopy ctx (ioEvents env) 0 []) of
        ((bytesWritten, Some e), out) \<Rightarrow>
          (os_Remove env (fs_append fs2 dst out) dst,
           Some (WrapError ''failed to copy file content: '' e))
      | ((bytesWritten, None), out) \<Rightarrow>
          (let fs3 = fs_append fs2 dst out in
           if bytesWritten \<noteq> fiSize srcInfo then
             (os_Remove env fs3 dst,
              Some (ErrorString (''incomplete copy: expected '' @ show_int (sint (fiSize srcInfo)) @
                      '' bytes, wrote '' @ show_int (sint bytesWritten) @ '' bytes'')))
           else
     (case failSync env of
        Some e \<Rightarrow> (fs3, Some (WrapError ''failed to sync destination file: '' e))
      | None \<Rightarrow>
     (case (if preservePerms fc then os_Chmod env fs3 dst (fiMode srcInfo) else (fs3, None)) of
        (fs4, Some e) \<Rightarrow> (fs4, Some (WrapError ''failed to set file permissions: '' e))
      | (fs4, None) \<Rightarrow>
     (case (if preserveTimes fc then os_Chtimes env fs4 dst (fiModTime srcInfo) else (fs4, None)) of
        (fs5, Some e) \<Rightarrow> (fs5, Some (WrapError ''failed to set file times: '' e))
      | (fs5, None) \<Rightarrow> (fs5, None)))))))))"

definition copyDirectory ::
  "FileCopier \<Rightarrow> copy_env \<Rightarrow> filesystem \<Rightarrow> string \<Rightarrow> os_FileInfo \<Rightarrow> filesystem \<times> goerror option" where
  "copyDirectory fc env fs dst srcInfo =
     (case os_MkdirAll env fs dst (fiMode srcInfo) of
        (fs1, Some e) \<Rightarrow>
          (fs1, Some (WrapError (''failed to create destination directory '' @ dst @ '': '') e))
      | (fs1, None) \<Rightarrow>
     (case (if preservePerms fc then os_Chmod env fs1 dst (fiMode srcInfo) else (fs1, None)) of
        (fs2, Some e) \<Rightarrow> (fs2, Some (WrapError ''failed to set directory permissions: '' e))
      | (fs2, None) \<Rightarrow>
     (case (if preserveTimes fc then os_Chtimes env fs2 dst (fiModTime srcInfo) else (fs2, None)) of
        (fs3, Some e) \<Rightarrow> (fs3, Some (WrapError ''failed to set directory times: '' e))
      | (fs3, None) \<Rightarrow> (fs3, None))))"

definition CopyFile ::
  "FileCopier \<Rightarrow> copy_env \<Rightarrow> go_context \<Rightarrow> filesystem \<Rightarrow> string \<Rightarrow> string \<Rightarrow>
   filesystem \<times> goerror option" where
  "CopyFile fc env ctx fs src dst =
     (case os_Stat env fs src of
        Inl e \<Rightarrow> (fs, Some (WrapError (''failed to stat source file '' @ src @ '': '') e))
      | Inr srcInfo \<Rightarrow>
          if fiIsDir srcInfo then copyDirectory fc env fs dst srcInfo
          else copyRegularFile fc env ctx fs src dst srcInfo)"

section \<open>Retry manager: the retry loop (retry.go)\<close>

text \<open>
  Of \<open>RetryConfig\<close> only \<open>MaxAttempts\<close> decides what \<open>ExecuteWithRetry\<close> returns; the
  delays (computed in floating point) only decide how long it waits.
\<close>

record RetryConfig =
  MaxAttempts :: int

definition defaultRetryConfig :: RetryConfig where
  "defaultRetryConfig = \<lparr>MaxAttempts = 3\<rparr>"

text \<open>
  \<open>ExecuteWithRetry\<close> (retry.go:51). \<open>operation k\<close> is what the \<open>k\<close>-th call of the
  operation returns and \<open>waitErr k\<close> is \<open>ctx.Err()\<close> when the context is done during the
  wait after attempt \<open>k\<close>. The result is the number of calls made and the error. With
  \<open>MaxAttempts < 1\<close> the loop body never runs and \<open>%w\<close> formats a nil error.
\<close>

function retry_loop ::
  "RetryConfig \<Rightarrow> (int \<Rightarrow> goerror option) \<Rightarrow> (int \<Rightarrow> goerror option) \<Rightarrow> int \<Rightarrow> int \<times> goerror option" where
  "retry_loop cfg operation waitErr attempt =
     (if \<not> attempt \<le> MaxAttempts cfg then
        (attempt - 1,
         Some (ErrorString (''operation failed after '' @ show_int (MaxAttempts cfg) @
                 '' attempts, last error: %!w(<nil>)'')))
      else
        (case operation attempt of
           None \<Rightarrow> (attempt, None)
         | Some err \<Rightarrow>
             (case errors_As_Retryable err of
                Some (r, True) \<Rightarrow>
                  (attempt, Some (WrapError (''fatal error on attempt '' @ show_int attempt @ '': '') err))
              | Some (False, False) \<Rightarrow>
                  (attempt,
                   Some (WrapError (''non-retryable error on attempt '' @ show_int attempt @ '': '') err))
              | _ \<Rightarrow>
                  if attempt = MaxAttempts cfg then
                    (attempt,
                     Some (WrapError (''operation failed after '' @ show_int (MaxAttempts cfg) @
                             '' attempts, last error: '') err))
                  else
                    (case waitErr attempt of
                       Some cerr \<Rightarrow>
                         (attempt,
                          Some (WrapError (''operation cancelled after '' @ show_int attempt @
                                  '' attempts: '') cerr))
                     | None \<Rightarrow> retry_loop cfg operation waitErr (attempt + 1)))))"
  by pat_completeness auto
termination
  by (relation "measure (\<lambda>(cfg, operation, waitErr, attempt). nat (MaxAttempts cfg + 1 - attempt))") auto

definition ExecuteWithRetry ::
  "RetryConfig \<Rightarrow> (int \<Rightarrow> goerror option) \<Rightarrow> (int \<Rightarrow> goerror option) \<Rightarrow> int \<times> goerror option" where
  "ExecuteWithRetry cfg operation waitErr = retry_loop cfg operation waitErr 1"

section \<open>Sync engine (src/unnamed/part_000)\<close>

text \<open>
  \<open>Progress\<close> without its floating-point fields, and the engine. The time fields of
  \<open>SyncStats\<close> are not modelled. The field \<open>copierCalls\<close> is not in the source: it
  counts the calls of \<open>CopyFile\<close> that \<open>syncFile\<close> makes, so that a statement about
  the number of copies can be written down.
\<close>

record Progress =
  Current :: int
  Total :: int
  CurrentFile :: string

record SyncEngine =
  scanner :: FileScanner
  resolver :: ConflictResolver
  retryManager :: RetryConfig
  errorHandler :: ErrorHandler
  stats :: SyncStats
  progress :: Progress
  copierCalls :: int

definition emptyStats :: SyncStats where
  "emptyStats =
     \<lparr>FilesScanned = 0, FilesChanged = 0, FilesCreated = 0, FilesModified = 0,
      FilesDeleted = 0, BytesTransferred = 0, ConflictsFound = 0, ConflictsResolved = 0,
      ErrorsEncountered = 0\<rparr>"

definition emptyProgress :: Progress where
  "emptyProgress = \<lparr>Current = 0, Total = 0, CurrentFile = []\<rparr>"

definition NewSyncEngine :: "int \<Rightarrow> SyncEngine" where
  "NewSyncEngine gomaxprocs =
     \<lparr>scanner = NewFileScanner 0 gomaxprocs,
      resolver = NewConflictResolver None,
      retryManager = defaultRetryConfig,
      errorHandler = NewErrorHandler 1000,
      stats = emptyStats, progress = emptyProgress, copierCalls = 0\<rparr>"

definition resetStats :: "SyncEngine \<Rightarrow> SyncEngine" where
  "resetStats e = e\<lparr>stats := emptyStats, progress := emptyProgress\<rparr>"

text \<open>
  What the operating system, the terminal and the clock answer during the work on the
  files: \<open>filepath.Rel\<close> and \<open>filepath.Join\<close>, the result of \<open>os.MkdirAll\<close> on a
  destination path, the result of the \<open>k\<close>-th call of \<open>CopyFile\<close> for a source and a
  destination path, \<open>ctx.Err()\<close> during the wait after the \<open>k\<close>-th attempt, the two
  failures \<open>CreateBackup\<close> can meet, the answer of the interactive dialogue, and the
  time.
\<close>

record world =
  fp_Rel :: "string \<Rightarrow> string \<Rightarrow> goerror + string"
  fp_Join :: "string \<Rightarrow> string \<Rightarrow> string"
  mkdirAllErr :: "string \<Rightarrow> goerror option"
  copyFileErr :: "string \<Rightarrow> string \<Rightarrow> int \<Rightarrow> goerror option"
  retryWaitErr :: "string \<Rightarrow> int \<Rightarrow> goerror option"
  backupMkdirErr :: "goerror option"
  backupCopyErr :: "string \<Rightarrow> goerror option"
  askUser :: "ConflictInfo \<Rightarrow> ConflictResolution \<times> goerror option"
  clock :: Time

text \<open>\<open>CreateBackup\<close> (resolver.go:306); only its error is used by the engine.\<close>

definition CreateBackup :: "ConflictResolver \<Rightarrow> world \<Rightarrow> string \<Rightarrow> goerror option" where
  "CreateBackup cr w filePath =
     (if \<not> backup cr then None
      else (case backupMkdirErr w of
              Some e \<Rightarrow> Some (WrapError ''failed to create backup directory: '' e)
            | None \<Rightarrow>
                (case backupCopyErr w filePath of
                   Some e \<Rightarrow> Some (WrapError ''failed to create backup: '' e)
                 | None \<Rightarrow> None)))"

definition needsSync :: "FileInfo \<Rightarrow> FileInfo \<Rightarrow> SyncOptions \<Rightarrow> bool" where
  "needsSync source dest opts =
     (if Size source \<noteq> Size dest then True
      else if \<not> time_Equal (ModTime source) (ModTime dest) then True
      else if ChecksumVerify opts \<and> Checksum source \<noteq> [] \<and> Checksum dest \<noteq> [] then
        Checksum source \<noteq> Checksum dest
      else False)"

text \<open>
  The writes of one goroutine to the state shared by all of them, each atomic
  (\<open>atomic.AddInt64\<close>, or under the engine's mutex). \<open>AddError\<close> has no lock in the
  source; the model takes it as one step too.
\<close>

datatype effect =
    IncConflictsFound
  | IncConflictsResolved
  | IncFilesModified
  | IncFilesCreated
  | IncFilesChanged
  | AddBytesTransferred int64
  | IncErrorsEncountered
  | PushError SyncError
  | CopierCalled int
  | Progressed string

fun apply_effect :: "SyncEngine \<Rightarrow> effect \<Rightarrow> SyncEngine" where
  "apply_effect e IncConflictsFound =
     e\<lparr>stats := (stats e)\<lparr>ConflictsFound := ConflictsFound (stats e) + 1\<rparr>\<rparr>"
| "apply_effect e IncConflictsResolved =
     e\<lparr>stats := (stats e)\<lparr>ConflictsResolved := ConflictsResolved (stats e) + 1\<rparr>\<rparr>"
| "apply_effect e IncFilesModified =
     e\<lparr>stats := (stats e)\<lparr>FilesModified := FilesModified (stats e) + 1\<rparr>\<rparr>"
| "apply_effect e IncFilesCreated =
     e\<lparr>stats := (stats e)\<lparr>FilesCreated := FilesCreated (stats e) + 1\<rparr>\<rparr>"
| "apply_effect e IncFilesChanged =
     e\<lparr>stats := (stats e)\<lparr>FilesChanged := FilesChanged (stats e) + 1\<rparr>\<rparr>"
| "apply_effect e (AddBytesTransferred n) =
     e\<lparr>stats := (stats e)\<lparr>BytesTransferred := BytesTransferred (stats e) + n\<rparr>\<rparr>"
| "apply_effect e IncErrorsEncountered =
     e\<lparr>stats := (stats e)\<lparr>ErrorsEncountered := ErrorsEncountered (stats e) + 1\<rparr>\<rparr>"
| "apply_effect e (PushError err) = e\<lparr>errorHandler := AddError (errorHandler e) err\<rparr>"
| "apply_effect e (CopierCalled n) = e\<lparr>copierCalls := copierCalls e + n\<rparr>"
| "apply_effect e (Progressed path) =
     e\<lparr>progress := (progress e)\<lparr>Current := Current (progress e) + 1, CurrentFile := path\<rparr>\<rparr>"

text \<open>
  The conflict block of \<open>syncFile\<close> (part_000, lines 205 to 229):
  \<open>Inl\<close> when the function returns from inside it, \<open>Inr\<close> when it goes on; in both
  cases with the writes made so far.
\<close>

definition syncFile_conflict ::
  "ConflictResolver \<Rightarrow> world \<Rightarrow> FileInfo \<Rightarrow> FileInfo \<Rightarrow> string \<Rightarrow>
   (effect list \<times> goerror option) + effect list" where
  "syncFile_conflict cr w sourceFile destFile destPath =
     (case DetectConflict sourceFile destFile of
        None \<Rightarrow> Inr []
      | Some conflict \<Rightarrow>
          (case ResolveConflict cr (askUser w) conflict of
             (resolution, Some err) \<Rightarrow>
               Inl ([IncConflictsFound],
                    Some (WrapError (''failed to resolve conflict for '' @ Path sourceFile @ '': '') err))
           | (ResolutionSkip, None) \<Rightarrow> Inl ([IncConflictsFound], None)
           | (ResolutionUseDestination, None) \<Rightarrow> Inl ([IncConflictsFound], None)
           | (ResolutionBackupAndUseSource, None) \<Rightarrow>
               (case CreateBackup cr w destPath of
                  Some err \<Rightarrow>
                    Inl ([IncConflictsFound], Some (WrapError ''failed to create backup: '' err))
                | None \<Rightarrow> Inr [IncConflictsFound, IncConflictsResolved])
           | (ResolutionUseSource, None) \<Rightarrow> Inr [IncConflictsFound, IncConflictsResolved]
           | (ResolutionMerge, None) \<Rightarrow> Inr [IncConflictsFound]))"

text \<open>\<open>syncFile\<close>: the writes it makes, in program order, and the error it returns.\<close>

definition syncFile ::
  "ConflictResolver \<Rightarrow> RetryConfig \<Rightarrow> world \<Rightarrow> string \<Rightarrow> string \<Rightarrow> FileInfo \<Rightarrow>
   (string \<rightharpoonup> FileInfo) \<Rightarrow> SyncOptions \<Rightarrow> effect list \<times> goerror option" where
  "syncFile cr rm w source destination sourceFile destMap opts =
     (case fp_Rel w source (Path sourceFile) of
        Inl err \<Rightarrow> ([], Some (WrapError ''failed to get relative path: '' err))
      | Inr relPath \<Rightarrow>
          (let destPath = fp_Join w destination relPath;
               exists = (destMap relPath \<noteq> None);
               needs = (case destMap relPath of
                          None \<Rightarrow> True
                        | Some destFile \<Rightarrow> needsSync sourceFile destFile opts);
               conflictBlock =
                 (case destMap relPath of
                    None \<Rightarrow> Inr []
                  | Some destFile \<Rightarrow>
                      if needs then syncFile_conflict cr w sourceFile destFile destPath
                      else Inr [])
           in case conflictBlock of
                Inl r \<Rightarrow> r
              | Inr effs \<Rightarrow>
                  if \<not> needs then (effs, None)
                  else if DryRun opts then
                    (effs @ [if exists then IncFilesModified else IncFilesCreated], None)
                  else if IsDir sourceFile then
                    (case mkdirAllErr w destPath of
                       Some err \<Rightarrow>
                         (effs, Some (WrapError (''failed to create directory '' @ destPath @ '': '') err))
                     | None \<Rightarrow> (effs @ [IncFilesCreated], None))
                  else
                    (case ExecuteWithRetry rm (copyFileErr w (Path sourceFile) destPath)
                            (retryWaitErr w (Path sourceFile)) of
                       (n, Some copyErr) \<Rightarrow>
                         (effs @ [CopierCalled n,
                                  PushError (ClassifySyncError (clock w) ''copy'' (Path sourceFile) copyErr),
                                  IncErrorsEncountered],
                          Some (WrapError (''failed to copy file '' @ Path sourceFile @ '' to '' @
                                  destPath @ '' after retries: '') copyErr))
                     | (n, None) \<Rightarrow>
                         (effs @ [CopierCalled n, AddBytesTransferred (Size sourceFile),
                                  if exists then IncFilesModified else IncFilesCreated,
                                  IncFilesChanged],
                          None))))"

text \<open>
  The goroutine that \<open>Sync\<close> starts for one source entry (lines 169 to 180): the
  writes of \<open>syncFile\<close>, one more increment of the error counter when \<open>syncFile\<close>
  returned an error, and the deferred progress update.
\<close>

definition worker ::
  "ConflictResolver \<Rightarrow> RetryConfig \<Rightarrow> world \<Rightarrow> string \<Rightarrow> string \<Rightarrow>
   (string \<rightharpoonup> FileInfo) \<Rightarrow> SyncOptions \<Rightarrow> FileInfo \<Rightarrow> effect list" where
  "worker cr rm w source destination destMap opts file =
     (case syncFile cr rm w source destination file destMap opts of
        (effs, Some err) \<Rightarrow> effs @ [IncErrorsEncountered, Progressed (Path file)]
      | (effs, None) \<Rightarrow> effs @ [Progressed (Path file)])"

text \<open>The map from relative path to destination record (lines 146 to 151); a failing \<open>Rel\<close> gives the empty path.\<close>

definition destMap_of :: "world \<Rightarrow> string \<Rightarrow> FileInfo list \<Rightarrow> (string \<rightharpoonup> FileInfo)" where
  "destMap_of w destination destFiles =
     foldl (\<lambda>m file. m((case fp_Rel w destination (Path file) of Inl err \<Rightarrow> [] | Inr r \<Rightarrow> r) \<mapsto> file))
       Map.empty destFiles"

text \<open>
  The dispatch loop (lines 160 to 181): one poll of the context per source entry; the
  entries for which a goroutine was started, and \<open>ctx.Err()\<close> when the loop returned
  early.
\<close>

fun dispatch :: "go_context \<Rightarrow> FileInfo list \<Rightarrow> FileInfo list \<times> goerror option" where
  "dispatch ctx [] = ([], None)"
| "dispatch ctx (f # fs) =
     (case ctx_poll ctx of
        (Some err, ctx') \<Rightarrow> ([], Some err)
      | (None, ctx') \<Rightarrow> (case dispatch ctx' fs of (started, r) \<Rightarrow> (f # started, r)))"

text \<open>
  \<open>Sync\<close> up to the point where the goroutines run. \<open>SyncReturned\<close>: it returned
  before starting any; \<open>SyncPanicked\<close>: \<open>make(chan struct{}, opts.Workers)\<close> with a
  negative size; \<open>SyncStarted e ws r\<close>: the engine when the goroutines start, the
  writes of each started goroutine, and the error \<open>Sync\<close> returns (\<open>ctx.Err()\<close> when
  the dispatch loop was cancelled, in which case it returns without waiting).
\<close>

datatype sync_start =
    SyncReturned SyncEngine goerror
  | SyncPanicked SyncEngine
  | SyncStarted SyncEngine "effect list list" "goerror option"

definition Sync_start ::
  "SyncEngine \<Rightarrow> hashers \<Rightarrow> world \<Rightarrow> walk_result \<Rightarrow> walk_result \<Rightarrow> go_context \<Rightarrow>
   string \<Rightarrow> string \<Rightarrow> SyncOptions \<Rightarrow> sync_start" where
  "Sync_start e hs w srcWalk dstWalk ctx source destination opts =
     (let e0 = resetStats e in
      case Scan (scanner e0) hs source srcWalk of
        (sc1, Inl err) \<Rightarrow>
          SyncReturned (e0\<lparr>scanner := sc1\<rparr>) (WrapError ''failed to scan source directory: '' err)
      | (sc1, Inr sourceFiles) \<Rightarrow>
          (let e1 = e0\<lparr>scanner := sc1,
                       stats := (stats e0)\<lparr>FilesScanned := int (length sourceFiles)\<rparr>,
                       progress := (progress e0)\<lparr>Total := int (length sourceFiles)\<rparr>\<rparr>
           in case Scan sc1 hs destination dstWalk of
                (sc2, Inl err) \<Rightarrow>
                  if \<not> os_IsNotExist err then
                    SyncReturned (e1\<lparr>scanner := sc2\<rparr>)
                      (WrapError ''failed to scan destination directory: '' err)
                  else if Workers opts < 0 then SyncPanicked (e1\<lparr>scanner := sc2\<rparr>)
                  else (case dispatch ctx sourceFiles of
                          (started, r) \<Rightarrow>
                            SyncStarted (e1\<lparr>scanner := sc2\<rparr>)
                              (map (worker (resolver e1) (retryManager e1) w source destination
                                      (destMap_of w destination []) opts) started) r)
              | (sc2, Inr destFiles) \<Rightarrow>
                  if Workers opts < 0 then SyncPanicked (e1\<lparr>scanner := sc2\<rparr>)
                  else (case dispatch ctx sourceFiles of
                          (started, r) \<Rightarrow>
                            SyncStarted (e1\<lparr>scanner := sc2\<rparr>)
                              (map (worker (resolver e1) (retryManager e1) w source destination
                                      (destMap_of w destination destFiles) opts) started) r)))"

text \<open>
  One step of the running goroutines: any goroutine with a write left makes its next
  one. Every interleaving is a path of this relation.
\<close>

inductive sync_step :: "SyncEngine \<times> effect list list \<Rightarrow> SyncEngine \<times> effect list list \<Rightarrow> bool" where
  step: "i < length ws \<Longrightarrow> ws ! i = x # rest \<Longrightarrow>
         sync_step (e, ws) (apply_effect e x, ws[i := rest])"

definition sync_reaches :: "SyncEngine \<times> effect list list \<Rightarrow> SyncEngine \<times> effect list list \<Rightarrow> bool" where
  "sync_reaches = sync_step\<^sup>*\<^sup>*"

text \<open>
  \<open>Sync\<close>: the engine once the started goroutines have settled, and the returned
  error. The goroutines are run one after the other in the order of dispatch, which
  is one of the interleavings.
\<close>

datatype sync_outcome =
    Panicked
  | Returned SyncEngine "goerror option"

definition Sync ::
  "SyncEngine \<Rightarrow> hashers \<Rightarrow> world \<Rightarrow> walk_result \<Rightarrow> walk_result \<Rightarrow> go_context \<Rightarrow>
   string \<Rightarrow> string \<Rightarrow> SyncOptions \<Rightarrow> sync_outcome" where
  "Sync e hs w srcWalk dstWalk ctx source destination opts =
     (case Sync_start e hs w srcWalk dstWalk ctx source destination opts of
        SyncReturned e' err \<Rightarrow> Returned e' (Some err)
      | SyncPanicked e' \<Rightarrow> Panicked
      | SyncStarted e' ws r \<Rightarrow> Returned (foldl apply_effect e' (concat ws)) r)"

definition mirrorOptions :: SyncOptions where
  "mirrorOptions =
     \<lparr>DryRun = False, Force = False, Recursive = True, PreservePerms = True,
      PreserveTimes = True, DeleteExtraneous = False, ChecksumVerify = True, Workers = 0,
      BufferSize = 0, Timeout = 0\<rparr>"

definition Mirror ::
  "SyncEngine \<Rightarrow> hashers \<Rightarrow> world \<Rightarrow> walk_result \<Rightarrow> walk_result \<Rightarrow> go_context \<Rightarrow>
   string \<Rightarrow> string \<Rightarrow> sync_outcome" where
  "Mirror e hs w srcWalk dstWalk ctx source destination =
     Sync (resetStats e) hs w srcWalk dstWalk ctx source destination mirrorOptions"

section \<open>Concrete inputs\<close>

text \<open>The values at which the theorems below are instantiated.\<close>

definition deadline_with_timeout_text :: goerror where
  "deadline_with_timeout_text = WrapError ''connection timeout: '' ContextDeadlineExceeded"

definition file_of :: "string \<Rightarrow> int64 \<Rightarrow> Time \<Rightarrow> string \<Rightarrow> FileInfo" where
  "file_of path sz mtime digest =
     \<lparr>Path = path, Size = sz, ModTime = mtime, Mode = 0x1A4, IsDir = False,
      Checksum = digest, ChecksumAlgo = (if digest = [] then [] else ''blake3'')\<rparr>"

definition smart_example :: ConflictInfo where
  "smart_example =
     \<lparr>ConflictPath = ''/src/x.txt'',
      SourceInfo = file_of ''/src/x.txt'' 4096 30000000000 [],
      DestInfo = file_of ''/dst/x.txt'' 2048 0 [],
      Conflict = ConflictSizesDiffer\<rparr>"

definition smart_example_older :: ConflictInfo where
  "smart_example_older =
     \<lparr>ConflictPath = ''/src/x.txt'',
      SourceInfo = file_of ''/src/x.txt'' 4096 0 [],
      DestInfo = file_of ''/dst/x.txt'' 2048 30000000000 [],
      Conflict = ConflictSizesDiffer\<rparr>"

definition smart_resolver :: ConflictResolver where
  "smart_resolver =
     \<lparr>strategy = ''smart'', backup = False, backupDir = ''.relay-backups'', interactive = False\<rparr>"

definition misspelled_resolver :: ConflictResolver where
  "misspelled_resolver =
     \<lparr>strategy = ''newst'', backup = False, backupDir = ''.relay-backups'', interactive = False\<rparr>"

definition no_answer :: "ConflictInfo \<Rightarrow> ConflictResolution \<times> goerror option" where
  "no_answer conflict = (ResolutionSkip, Some (WrapError ''failed to read input: '' IoEOF))"

definition permission_error_at :: "string \<Rightarrow> SyncError" where
  "permission_error_at path =
     NewPermissionError 0 ''copy'' path (PathError ''open'' path (Errno EACCES))"

definition demo_blake3 :: "bytes \<Rightarrow> string" where
  "demo_blake3 bs = ''b3-'' @ show_nat (length bs)"

definition demo_sha256 :: "bytes \<Rightarrow> string" where
  "demo_sha256 bs = ''s2-'' @ show_nat (length bs)"

definition demo_hashers :: hashers where
  "demo_hashers = \<lparr>blake3_hex = demo_blake3, sha256_hex = demo_sha256\<rparr>"

definition hello_bytes :: bytes where
  "hello_bytes = [104, 101, 108, 108, 111]"

definition hello_entry :: dir_entry where
  "hello_entry =
     \<lparr>entPath = ''/src/a.txt'',
      entInfo = Inr \<lparr>stSize = 5, stModTime = 1000000000, stMode = 0x1A4, stIsDir = False\<rparr>,
      entOpen = None,
      entRead = Inr hello_bytes\<rparr>"

definition scanner_with_tag :: "string \<Rightarrow> FileScanner" where
  "scanner_with_tag algo = SetChecksumAlgorithm (NewFileScanner 1 8) algo"

definition one_file_walk :: walk_result where
  "one_file_walk = \<lparr>walkEntries = [hello_entry], walkErr = None, acquireErr = None\<rparr>"

definition changed_entry :: dir_entry where
  "changed_entry =
     \<lparr>entPath = ''/src/a.txt'',
      entInfo = Inr \<lparr>stSize = 5, stModTime = 2000000000, stMode = 0x1A4, stIsDir = False\<rparr>,
      entOpen = None,
      entRead = Inr hello_bytes\<rparr>"

definition other_entry :: dir_entry where
  "other_entry =
     \<lparr>entPath = ''/src/b.txt'',
      entInfo = Inr \<lparr>stSize = 5, stModTime = 1000000000, stMode = 0x1A4, stIsDir = False\<rparr>,
      entOpen = None,
      entRead = Inr hello_bytes\<rparr>"

definition changed_walk :: walk_result where
  "changed_walk = \<lparr>walkEntries = [changed_entry, other_entry], walkErr = None, acquireErr = None\<rparr>"

definition retagged_scanner :: FileScanner where
  "retagged_scanner =
     SetChecksumAlgorithm (fst (Scan (scanner_with_tag ''blake3'') demo_hashers ''/src'' one_file_walk))
       ''crc32''"

definition quiet_env :: copy_env where
  "quiet_env =
     \<lparr>failStat = None, failMkdirAll = None, failOpenDst = None, failOpenSrc = None,
      srcFstat = Inr 0x1A4, sendfiles = [],
      ioEvents = [\<lparr>rdBytes = hello_bytes, rdErr = None, wrCount = None, wrErr = None\<rparr>],
      failSync = None, failChmod = None, failChtimes = None, failRemove = None,
      now = 2000000000, GOOS = ''linux''\<rparr>"

definition unreadable_source_env :: copy_env where
  "unreadable_source_env =
     quiet_env\<lparr>failOpenSrc := Some (PathError ''open'' ''/src/a.txt'' (Errno EACCES))\<rparr>"

definition fsync_fails_env :: copy_env where
  "fsync_fails_env = quiet_env\<lparr>failSync := Some (PathError ''sync'' ''/dst/a.txt'' (Errno EIO))\<rparr>"

definition write_fails_env :: copy_env where
  "write_fails_env =
     quiet_env\<lparr>ioEvents := [\<lparr>rdBytes = hello_bytes, rdErr = None, wrCount = Some 2,
                              wrErr = Some (PathError ''write'' ''/dst/a.txt'' (Errno ENOSPC))\<rparr>]\<rparr>"

definition one_file_fs :: filesystem where
  "one_file_fs = [''/src/a.txt'' \<mapsto> RegularFile hello_bytes 0x1A4 1000000000]"

definition buffered_copier :: FileCopier where
  "buffered_copier = NewFileCopier 1024 False 8"

text \<open>
  Trees on disk. \<open>child dir name\<close> is the path of an entry of a directory;
  \<open>demo_Rel\<close> and \<open>demo_Join\<close> answer \<open>filepath.Rel\<close> and \<open>filepath.Join\<close> on such
  paths. \<open>tree_walk root names\<close> is the walk of a directory \<open>root\<close> that holds the
  files \<open>names\<close>, each with the five bytes \<open>hello\<close>: the walk visits the root itself
  first, as \<open>filepath.WalkDir\<close> does. \<open>missing_dir_walk root\<close> is the walk of a root
  that does not exist: \<open>Lstat\<close> fails and the callback returns that error.
\<close>

definition child :: "string \<Rightarrow> string \<Rightarrow> string" where
  "child dir name = dir @ ''/'' @ name"

definition demo_Rel :: "string \<Rightarrow> string \<Rightarrow> goerror + string" where
  "demo_Rel root path =
     (if path = root then Inr ''.''
      else if take (length root + 1) path = root @ ''/'' then Inr (drop (length root + 1) path)
      else Inl (ErrorString (''Rel: cannot make '' @ path @ '' relative to '' @ root)))"

definition demo_Join :: "string \<Rightarrow> string \<Rightarrow> string" where
  "demo_Join dir rel = (if rel = ''.'' then dir else child dir rel)"

definition dir_entry_at :: "string \<Rightarrow> dir_entry" where
  "dir_entry_at path =
     \<lparr>entPath = path,
      entInfo = Inr \<lparr>stSize = 4096, stModTime = 1000000000, stMode = 0x800001ED, stIsDir = True\<rparr>,
      entOpen = None, entRead = Inr []\<rparr>"

definition file_entry_at :: "string \<Rightarrow> dir_entry" where
  "file_entry_at path =
     \<lparr>entPath = path,
      entInfo = Inr \<lparr>stSize = 5, stModTime = 1000000000, stMode = 0x1A4, stIsDir = False\<rparr>,
      entOpen = None, entRead = Inr hello_bytes\<rparr>"

definition dir_record :: "string \<Rightarrow> FileInfo" where
  "dir_record path =
     \<lparr>Path = path, Size = 4096, ModTime = 1000000000, Mode = 0x800001ED, IsDir = True,
      Checksum = [], ChecksumAlgo = []\<rparr>"

definition file_record :: "string \<Rightarrow> FileInfo" where
  "file_record path =
     \<lparr>Path = path, Size = 5, ModTime = 1000000000, Mode = 0x1A4, IsDir = False,
      Checksum = ''b3-5'', ChecksumAlgo = ''blake3''\<rparr>"

definition ten_names :: "string list" where
  "ten_names = [''f0'', ''f1'', ''f2'', ''f3'', ''f4'', ''f5'', ''f6'', ''f7'', ''f8'', ''f9'']"

definition tree_walk :: "string \<Rightarrow> string list \<Rightarrow> walk_result" where
  "tree_walk root names =
     \<lparr>walkEntries = dir_entry_at root # map (\<lambda>n. file_entry_at (child root n)) names,
      walkErr = None, acquireErr = None\<rparr>"

definition missing_dir_walk :: "string \<Rightarrow> walk_result" where
  "missing_dir_walk root =
     \<lparr>walkEntries = [], walkErr = Some (PathError ''lstat'' root (Errno ENOENT)),
      acquireErr = None\<rparr>"

text \<open>The same tree with a root directory modified one second later.\<close>

definition newer_dir_entry_at :: "string \<Rightarrow> dir_entry" where
  "newer_dir_entry_at path =
     \<lparr>entPath = path,
      entInfo = Inr \<lparr>stSize = 4096, stModTime = 2000000000, stMode = 0x800001ED, stIsDir = True\<rparr>,
      entOpen = None, entRead = Inr []\<rparr>"

definition newer_dir_record :: "string \<Rightarrow> FileInfo" where
  "newer_dir_record path =
     \<lparr>Path = path, Size = 4096, ModTime = 2000000000, Mode = 0x800001ED, IsDir = True,
      Checksum = [], ChecksumAlgo = []\<rparr>"

definition newer_tree_walk :: "string \<Rightarrow> string list \<Rightarrow> walk_result" where
  "newer_tree_walk root names =
     \<lparr>walkEntries = newer_dir_entry_at root # map (\<lambda>n. file_entry_at (child root n)) names,
      walkErr = None, acquireErr = None\<rparr>"

text \<open>
  Worlds: in \<open>quiet_world\<close> every operation succeeds; in \<open>s5_world\<close> every attempt to
  copy \<open>/src/f3\<close> fails with permission denied when the destination file is created.
  \<open>denied_error\<close> is the error \<open>ExecuteWithRetry\<close> then returns, and \<open>copied path\<close>
  are the writes of a goroutine that copies a new five-byte file at the first attempt.
\<close>

definition denied_copy :: "string \<Rightarrow> string \<Rightarrow> int \<Rightarrow> goerror option" where
  "denied_copy src dst attempt =
     (if src = child ''/src'' ''f3'' then
        Some (WrapError (''failed to create destination file '' @ dst @ '': '')
                (PathError ''open'' dst (Errno EACCES)))
      else None)"

definition never :: "'a \<Rightarrow> goerror option" where
  "never x = None"

definition copy_succeeds :: "string \<Rightarrow> string \<Rightarrow> int \<Rightarrow> goerror option" where
  "copy_succeeds src dst attempt = None"

definition wait_completes :: "string \<Rightarrow> int \<Rightarrow> goerror option" where
  "wait_completes src attempt = None"

definition quiet_world :: world where
  "quiet_world =
     \<lparr>fp_Rel = demo_Rel, fp_Join = demo_Join, mkdirAllErr = never,
      copyFileErr = copy_succeeds, retryWaitErr = wait_completes, backupMkdirErr = None,
      backupCopyErr = never, askUser = no_answer, clock = 3000000000\<rparr>"

definition s5_world :: world where
  "s5_world = quiet_world\<lparr>copyFileErr := denied_copy\<rparr>"

definition denied_error :: goerror where
  "denied_error =
     WrapError ''operation failed after 3 attempts, last error: ''
       (WrapError ''failed to create destination file /dst/f3: ''
          (PathError ''open'' ''/dst/f3'' (Errno EACCES)))"

definition copied :: "string \<Rightarrow> effect list" where
  "copied path =
     [CopierCalled 1, AddBytesTransferred 5, IncFilesCreated, IncFilesChanged, Progressed path]"

definition dryRunOptions :: SyncOptions where
  "dryRunOptions = mirrorOptions\<lparr>DryRun := True\<rparr>"

text \<open>
  For the runs that mirror twice: a second content of the same length as
  \<open>hello_bytes\<close>, hash functions that tell the two apart, a tree whose files hold that
  second content, and the engine that a first mirror of \<open>/src\<close> (the root and
  \<open>a.txt\<close>) into an empty \<open>/dst\<close> returns.
\<close>

definition world_bytes :: bytes where
  "world_bytes = [119, 111, 114, 108, 100]"

definition content_blake3 :: "bytes \<Rightarrow> string" where
  "content_blake3 bs = ''b3-'' @ show_nat (sum_list (map unat bs))"

definition content_hashers :: hashers where
  "content_hashers = \<lparr>blake3_hex = content_blake3, sha256_hex = demo_sha256\<rparr>"

definition other_content_walk :: "string \<Rightarrow> string list \<Rightarrow> walk_result" where
  "other_content_walk root names =
     \<lparr>walkEntries = dir_entry_at root #
        map (\<lambda>n. (file_entry_at (child root n))\<lparr>entRead := Inr world_bytes\<rparr>) names,
      walkErr = None, acquireErr = None\<rparr>"

definition first_mirror_engine :: SyncEngine where
  "first_mirror_engine =
     (case Sync (NewSyncEngine 4) demo_hashers quiet_world (tree_walk ''/src'' [''a.txt''])
             (tree_walk ''/dst'' []) None ''/src'' ''/dst'' mirrorOptions of
        Panicked \<Rightarrow> NewSyncEngine 4
      | Returned e r \<Rightarrow> e)"

section \<open>Notions used in the statements\<close>

text \<open>The aggregator: its invariant, and the number of stored errors of a category.\<close>

definition aggregator_inv :: "int \<Rightarrow> ErrorHandler \<Rightarrow> bool" where
  "aggregator_inv n eh =
     (maxErrors eh = (if n \<le> 0 then 1000 else n) \<and> int (length (errors eh)) \<le> maxErrors eh)"

definition count_category :: "ErrorCategory \<Rightarrow> SyncError list \<Rightarrow> int" where
  "count_category c es = int (length (filter (\<lambda>e. Category e = c) es))"

definition digestless :: "FileInfo \<Rightarrow> bool" where
  "digestless f = (Checksum f = [] \<and> ChecksumAlgo f = [])"

text \<open>
  The cache holds a valid entry for a path when it holds an entry whose stored
  modification time (in whole seconds) and size are those of the file
  (scanner.go:150-151). \<open>bare_record\<close> is the record of a file with no digest and no
  algorithm tag.
\<close>

definition valid_entry :: "FileScanner \<Rightarrow> string \<Rightarrow> file_stat \<Rightarrow> bool" where
  "valid_entry s path st =
     (case cache s path of
        None \<Rightarrow> False
      | Some entry \<Rightarrow> modTime entry = time_Unix (stModTime st) \<and> entrySize entry = stSize st)"

definition bare_record :: "string \<Rightarrow> file_stat \<Rightarrow> FileInfo" where
  "bare_record path st =
     \<lparr>Path = path, Size = stSize st, ModTime = stModTime st, Mode = stMode st,
      IsDir = stIsDir st, Checksum = [], ChecksumAlgo = []\<rparr>"

text \<open>
  The scanner: the record \<open>getFileInfo\<close> computes for one entry from a given scanner
  state (none when \<open>stat\<close> fails or the filter rejects it), and these records for a
  list of entries, each computed from the same state.
\<close>

definition record_of ::
  "FileScanner \<Rightarrow> hashers \<Rightarrow> (string \<Rightarrow> FileInfo \<Rightarrow> bool) option \<Rightarrow> dir_entry \<Rightarrow> FileInfo list" where
  "record_of s hs flt ent =
     (case snd (getFileInfo s hs ent) of
        Inl e \<Rightarrow> []
      | Inr info \<Rightarrow>
          (case flt of
             Some f \<Rightarrow> if f (entPath ent) info then [info] else []
           | None \<Rightarrow> [info]))"

definition records_of ::
  "FileScanner \<Rightarrow> hashers \<Rightarrow> (string \<Rightarrow> FileInfo \<Rightarrow> bool) option \<Rightarrow> dir_entry list \<Rightarrow> FileInfo list" where
  "records_of s hs flt ents = concat (map (record_of s hs flt) ents)"

text \<open>
  The engine: what the two scans of \<open>Sync\<close> return (the destination scan runs with
  the scanner the source scan leaves behind; a failed destination scan counts as no
  records here).
\<close>

definition scanned_source :: "SyncEngine \<Rightarrow> hashers \<Rightarrow> string \<Rightarrow> walk_result \<Rightarrow> goerror + FileInfo list" where
  "scanned_source e hs source srcWalk = snd (Scan (scanner e) hs source srcWalk)"

definition scanned_dest ::
  "SyncEngine \<Rightarrow> hashers \<Rightarrow> string \<Rightarrow> walk_result \<Rightarrow> string \<Rightarrow> walk_result \<Rightarrow> FileInfo list" where
  "scanned_dest e hs source srcWalk destination dstWalk =
     (case snd (Scan (fst (Scan (scanner e) hs source srcWalk)) hs destination dstWalk) of
        Inl err \<Rightarrow> []
      | Inr files \<Rightarrow> files)"

text \<open>
  Measures on the writes a goroutine has still to make. \<open>excess w\<close> is the largest
  amount by which, while \<open>w\<close> runs, its increments of \<open>FilesChanged\<close> can get ahead of
  its increments of \<open>FilesCreated\<close> and \<open>FilesModified\<close>; \<open>counted w\<close> is the number
  of the latter. \<open>pending f ws\<close> sums a measure over all goroutines.
\<close>

definition pending :: "(effect list \<Rightarrow> int) \<Rightarrow> effect list list \<Rightarrow> int" where
  "pending f ws = sum_list (map f ws)"

fun delta :: "effect \<Rightarrow> int" where
  "delta IncFilesChanged = 1"
| "delta IncFilesCreated = - 1"
| "delta IncFilesModified = - 1"
| "delta x = 0"

fun excess :: "effect list \<Rightarrow> int" where
  "excess [] = 0"
| "excess (x # w) = max 0 (delta x + excess w)"

fun is_count :: "effect \<Rightarrow> bool" where
  "is_count IncFilesCreated = True"
| "is_count IncFilesModified = True"
| "is_count x = False"

definition counted :: "effect list \<Rightarrow> int" where
  "counted w = int (length (filter is_count w))"

definition counters_inv :: "SyncEngine \<times> effect list list \<Rightarrow> bool" where
  "counters_inv c =
     (case c of (e, ws) \<Rightarrow>
        FilesChanged (stats e) + pending excess ws \<le> FilesCreated (stats e) + FilesModified (stats e) \<and>
        FilesCreated (stats e) + FilesModified (stats e) + pending counted ws \<le> FilesScanned (stats e))"

text \<open>
  A source record is in sync with the destination when the destination map has a
  record at its relative path with the same size, modification time and digest. A
  write is copy-free when it is none of: a call of the copier, an addition to
  \<open>BytesTransferred\<close>, an increment of \<open>FilesModified\<close> or \<open>FilesChanged\<close>, a new
  error in the aggregator.
\<close>

definition in_sync :: "world \<Rightarrow> string \<Rightarrow> (string \<rightharpoonup> FileInfo) \<Rightarrow> FileInfo \<Rightarrow> bool" where
  "in_sync w source dm f =
     (case fp_Rel w source (Path f) of
        Inl err \<Rightarrow> False
      | Inr rel \<Rightarrow>
          (case dm rel of
             None \<Rightarrow> False
           | Some d \<Rightarrow> Size d = Size f \<and> ModTime d = ModTime f \<and> Checksum d = Checksum f))"

text \<open>
  Mirroring twice, in terms of the trees. \<open>disk_records\<close> are the records of a tree as
  it is on disk: what a scanner with the same tag and an empty cache returns, so the
  digest of a record is the digest of the file's bytes (none when it cannot be
  computed). \<open>cache_fresh\<close>: an entry of the cache that is valid for a non-empty
  regular file (same path, same whole-second modification time and size) holds the
  digest of the bytes the file has now; a cache with no entry for the path, or with an
  entry that is not valid, is fresh.
\<close>

definition cache_fresh :: "FileScanner \<Rightarrow> hashers \<Rightarrow> dir_entry \<Rightarrow> bool" where
  "cache_fresh s hs ent =
     (case entInfo ent of
        Inl e \<Rightarrow> True
      | Inr st \<Rightarrow>
          (case cache s (entPath ent) of
             None \<Rightarrow> True
           | Some entry \<Rightarrow>
               modTime entry = time_Unix (stModTime st) \<and> entrySize entry = stSize st \<longrightarrow>
               stIsDir st \<or> sint (stSize st) \<le> 0 \<or>
               (entOpen ent = None \<and>
                calculateChecksum s hs (entRead ent) = Inr (checksum entry))))"

definition disk_records :: "FileScanner \<Rightarrow> hashers \<Rightarrow> dir_entry list \<Rightarrow> FileInfo list" where
  "disk_records s hs ents = records_of (ClearCache s) hs None ents"

fun is_copy_free :: "effect \<Rightarrow> bool" where
  "is_copy_free IncFilesModified = False"
| "is_copy_free IncFilesChanged = False"
| "is_copy_free (AddBytesTransferred n) = False"
| "is_copy_free (CopierCalled n) = False"
| "is_copy_free (PushError err) = False"
| "is_copy_free x = True"

definition copy_free_inv :: "SyncEngine \<Rightarrow> int \<Rightarrow> SyncEngine \<times> effect list list \<Rightarrow> bool" where
  "copy_free_inv e0 k c =
     (case c of (e, ws) \<Rightarrow>
        copierCalls e = copierCalls e0 \<and> errorHandler e = errorHandler e0 \<and>
        BytesTransferred (stats e) = 0 \<and> FilesModified (stats e) = 0 \<and>
        FilesChanged (stats e) = 0 \<and>
        FilesCreated (stats e) + pending counted ws \<le> k \<and>
        (\<forall>w \<in> set ws. list_all is_copy_free w))"

section \<open>Retry manager: classification of cancellation\<close>

lemma isContextError_deadline_with_timeout_text:
  "isContextError deadline_with_timeout_text"
  by (simp add: deadline_with_timeout_text_def isContextError_def)

lemma isNetworkError_deadline_with_timeout_text:
  "isNetworkError deadline_with_timeout_text"
  by code_simp

text \<open>
  A context error whose message has none of the network, permission or disk-full
  patterns is classified fatal: the check for it comes fourth.
\<close>

lemma ClassifyError_context_fatal:
  assumes "isContextError e"
    and "\<not> isNetworkError e" and "\<not> isPermissionError e" and "\<not> isDiskFullError e"
  shows "ClassifyError (Some e) = Some (NewFatalError e)"
  using assms by (simp add: ClassifyError_def)

text \<open>
  C6. The claim: every error that wraps \<open>context.Canceled\<close> or
  \<open>context.DeadlineExceeded\<close> is classified fatal, whatever its message. In the code
  the network patterns are tried first: the error
  \<open>fmt.Errorf("connection timeout: %w", context.DeadlineExceeded)\<close> is a context error,
  its message contains \<open>timeout\<close>, and \<open>ClassifyError\<close> returns it as retryable and
  not fatal.
\<close>

theorem ClassifyError_deadline_with_timeout_text:
  "isContextError deadline_with_timeout_text \<and>
   ClassifyError (Some deadline_with_timeout_text) =
     Some (RetryableError deadline_with_timeout_text True False) \<and>
   (case ClassifyError (Some deadline_with_timeout_text) of
      None \<Rightarrow> False
    | Some r \<Rightarrow> Retryable r \<and> \<not> Fatal r)"
  by (simp add: isContextError_deadline_with_timeout_text
      isNetworkError_deadline_with_timeout_text ClassifyError_def NewRetryableError_def)

section \<open>Conflict resolver: strategies\<close>

lemma sint_sub_nonneg:
  fixes a b :: int64
  assumes "0 \<le> sint a" and "0 \<le> sint b"
  shows "sint (a - b) = sint a - sint b"
proof -
  have "sint a < 2 ^ 63" and "sint b < 2 ^ 63"
    using sint_lt [of a] sint_lt [of b] by simp_all
  then have "- (2 ^ 63) \<le> sint a - sint b" and "sint a - sint b < 2 ^ 63"
    using assms by linarith+
  then show ?thesis
    by (simp add: sint_word_ariths signed_take_bit_int_eq_self)
qed

lemma resolveSmart_by_differences:
  assumes "0 \<le> sint (Size (SourceInfo c))" and "0 \<le> sint (Size (DestInfo c))"
  shows "resolveSmart c =
     (let dt = ModTime (SourceInfo c) - ModTime (DestInfo c);
          ds = sint (Size (SourceInfo c)) - sint (Size (DestInfo c))
      in if \<bar>dt\<bar> > 60 * 1000000000
           then (if dt > 0 then ResolutionUseSource else ResolutionUseDestination)
         else if \<bar>ds\<bar> > 1024
           then (if ds > 0 then ResolutionUseSource else ResolutionUseDestination)
         else if ModTime (SourceInfo c) < ModTime (DestInfo c) then ResolutionUseDestination
         else ResolutionUseSource)"
  using sint_sub_nonneg [OF assms]
  by (auto simp add: resolveSmart_def resolveByNewest_def time_After_def Let_def time_Sub_def
      time_Minute_def minDuration_def maxDuration_def)

text \<open>
  C8. A conflict resolved by \<open>ResolveConflict\<close> with interactive mode off and the
  strategy \<open>smart\<close>, between two records with sizes that are not negative (as every
  size read from a file system is), gets this decision and no error: if the
  modification times differ by more than 60 seconds the newer side is picked;
  otherwise, if the sizes differ by more than 1024 bytes the larger side is picked;
  otherwise the Newest rule decides: the later modification time wins and the source
  wins a tie. \<open>dt\<close> is the exact difference of the instants in nanoseconds and \<open>ds\<close>
  the exact difference of the sizes.
\<close>

theorem ResolveConflict_smart_rule:
  assumes "\<not> interactive cr" and "strategy cr = ''smart''"
    and "0 \<le> sint (Size (SourceInfo c))" and "0 \<le> sint (Size (DestInfo c))"
  shows "ResolveConflict cr ask c =
     (let dt = ModTime (SourceInfo c) - ModTime (DestInfo c);
          ds = sint (Size (SourceInfo c)) - sint (Size (DestInfo c))
      in if \<bar>dt\<bar> > 60 * 1000000000
           then (if dt > 0 then ResolutionUseSource else ResolutionUseDestination)
         else if \<bar>ds\<bar> > 1024
           then (if ds > 0 then ResolutionUseSource else ResolutionUseDestination)
         else if ModTime (SourceInfo c) < ModTime (DestInfo c) then ResolutionUseDestination
         else ResolutionUseSource,
      None)"
proof -
  have "ResolveConflict cr ask c = (resolveSmart c, None)"
    using assms(1,2)
    by (simp add: ResolveConflict_def ConflictNewest_def ConflictSource_def
        ConflictDestination_def ConflictSmart_def)
  then show ?thesis
    by (simp only: resolveSmart_by_differences [OF assms(3,4)])
qed

text \<open>
  The instance named in the claim, resolved by a resolver configured with the strategy
  \<open>smart\<close>: the times 30 seconds apart (the source the newer, and then the older one)
  and the source 2 KiB larger give \<open>UseSource\<close>. With the source the older one the
  Newest rule alone would pick the destination.
\<close>

theorem ResolveConflict_smart_rule_witness:
  "ResolveConflict smart_resolver no_answer smart_example = (ResolutionUseSource, None) \<and>
   ResolveConflict smart_resolver no_answer smart_example_older = (ResolutionUseSource, None) \<and>
   resolveByNewest smart_example_older = ResolutionUseDestination"
proof -
  have i: "\<not> interactive smart_resolver" and s: "strategy smart_resolver = ''smart''"
    by (simp_all add: smart_resolver_def)
  have a: "0 \<le> sint (Size (SourceInfo smart_example))"
    and b: "0 \<le> sint (Size (DestInfo smart_example))"
    and c: "0 \<le> sint (Size (SourceInfo smart_example_older))"
    and d: "0 \<le> sint (Size (DestInfo smart_example_older))"
    by (simp_all add: smart_example_def smart_example_older_def file_of_def)
  show ?thesis
    using ResolveConflict_smart_rule [OF i s a b, of no_answer]
      ResolveConflict_smart_rule [OF i s c d, of no_answer]
    by (simp add: smart_example_def smart_example_older_def file_of_def resolveByNewest_def
        time_After_def)
qed

text \<open>
  C10. With interactive mode off and a strategy string that is none of \<open>newest\<close>,
  \<open>source\<close>, \<open>destination\<close>, \<open>smart\<close>, \<open>skip\<close>, \<open>ResolveConflict\<close> returns what the
  Newest rule returns, which is also what it returns under the strategy \<open>newest\<close>, and
  no error.
\<close>

theorem ResolveConflict_unknown_strategy:
  assumes "\<not> interactive cr"
    and "strategy cr \<notin>
           {ConflictNewest, ConflictSource, ConflictDestination, ConflictSmart, ConflictSkip}"
  shows "ResolveConflict cr ask conflict = (resolveByNewest conflict, None) \<and>
         ResolveConflict cr ask conflict =
           ResolveConflict (cr\<lparr>strategy := ConflictNewest\<rparr>) ask conflict"
  using assms by (simp add: ResolveConflict_def)

theorem ResolveConflict_unknown_strategy_witness:
  "ResolveConflict misspelled_resolver no_answer smart_example_older =
     (ResolutionUseDestination, None) \<and>
   ResolveConflict (misspelled_resolver\<lparr>strategy := []\<rparr>) no_answer smart_example =
     (ResolutionUseSource, None)"
proof -
  have a: "\<not> interactive misspelled_resolver"
    and b: "strategy misspelled_resolver \<notin>
           {ConflictNewest, ConflictSource, ConflictDestination, ConflictSmart, ConflictSkip}"
    and c: "\<not> interactive (misspelled_resolver\<lparr>strategy := []\<rparr>)"
    and d: "strategy (misspelled_resolver\<lparr>strategy := []\<rparr>) \<notin>
           {ConflictNewest, ConflictSource, ConflictDestination, ConflictSmart, ConflictSkip}"
    by (simp_all add: misspelled_resolver_def ConflictNewest_def ConflictSource_def
        ConflictDestination_def ConflictSmart_def ConflictSkip_def)
  show ?thesis
    using ResolveConflict_unknown_strategy [OF a b, of no_answer smart_example_older]
      ResolveConflict_unknown_strategy [OF c d, of no_answer smart_example]
    by (simp add: resolveByNewest_def time_After_def smart_example_def
        smart_example_older_def file_of_def)
qed

section \<open>Error aggregator: bound, eviction and summary\<close>

lemma aggregator_inv_new: "aggregator_inv n (NewErrorHandler n)"
  by (simp add: aggregator_inv_def NewErrorHandler_def)

lemma aggregator_inv_apply: "aggregator_inv n eh \<Longrightarrow> aggregator_inv n (eh_apply eh x)"
  by (cases x) (auto simp: aggregator_inv_def AddError_def Clear_def Let_def split: if_splits)

lemma aggregator_inv_foldl:
  "aggregator_inv n eh \<Longrightarrow> aggregator_inv n (foldl eh_apply eh ops)"
  by (induction ops arbitrary: eh) (simp_all add: aggregator_inv_apply)

lemma aggregator_inv_run: "aggregator_inv n (eh_run n ops)"
  by (simp add: eh_run_def aggregator_inv_foldl aggregator_inv_new)

lemma summary_foldl:
  "foldl summary_incr m es c =
     (if count_category c es = 0 then m c
      else Some ((case m c of None \<Rightarrow> 0 | Some v \<Rightarrow> v) + count_category c es))"
proof (induction es arbitrary: m)
  case Nil
  then show ?case by (simp add: count_category_def)
next
  case (Cons e es)
  show ?case
    by (simp add: Cons.IH) (auto simp: summary_incr_def count_category_def split: option.splits)
qed

lemma GetSummary_counts:
  "GetSummary eh c =
     (if count_category c (errors eh) = 0 then None else Some (count_category c (errors eh)))"
  by (simp add: GetSummary_def summary_foldl)

text \<open>
  C9. For the aggregator \<open>eh_run n ops\<close> reached from \<open>NewErrorHandler n\<close> by any
  sequence of \<open>AddError\<close> and \<open>Clear\<close>: its limit is \<open>n\<close>, or 1000 when \<open>n < 1\<close>; it
  never holds more errors than the limit; an \<open>AddError\<close> on a full buffer drops the
  oldest error and appends the new one, and on a buffer that is not full only appends;
  and the summary maps each category to the number of stored errors of that category,
  with no entry for a category that has none.
\<close>

theorem aggregator_bounded_fifo:
  "maxErrors (eh_run n ops) = (if n \<le> 0 then 1000 else n) \<and>
   int (length (errors (eh_run n ops))) \<le> maxErrors (eh_run n ops) \<and>
   (if int (length (errors (eh_run n ops))) = maxErrors (eh_run n ops)
    then errors (AddError (eh_run n ops) e) = tl (errors (eh_run n ops)) @ [e]
    else errors (AddError (eh_run n ops) e) = errors (eh_run n ops) @ [e]) \<and>
   GetSummary (eh_run n ops) c =
     (if count_category c (errors (eh_run n ops)) = 0 then None
      else Some (count_category c (errors (eh_run n ops))))"
  using aggregator_inv_run [of n ops]
  by (auto simp: aggregator_inv_def GetSummary_counts AddError_def Let_def drop_Suc
      split: if_splits)

text \<open>
  An aggregator of limit 2 after three additions holds the last two, and its summary
  counts them.
\<close>

theorem aggregator_bounded_fifo_witness:
  "errors (eh_run 2 [OpAddError (permission_error_at ''a''),
                     OpAddError (permission_error_at ''b''),
                     OpAddError (permission_error_at ''c'')]) =
     [permission_error_at ''b'', permission_error_at ''c''] \<and>
   maxErrors (eh_run 2 [OpAddError (permission_error_at ''a''),
                        OpAddError (permission_error_at ''b''),
                        OpAddError (permission_error_at ''c'')]) = 2 \<and>
   GetSummary (eh_run 2 [OpAddError (permission_error_at ''a''),
                         OpAddError (permission_error_at ''b''),
                         OpAddError (permission_error_at ''c'')]) ErrorCategoryPermission = Some 2"
proof -
  have run: "errors (eh_run 2 [OpAddError (permission_error_at ''a''),
                     OpAddError (permission_error_at ''b''),
                     OpAddError (permission_error_at ''c'')]) =
     [permission_error_at ''b'', permission_error_at ''c'']"
    by (simp add: eh_run_def NewErrorHandler_def AddError_def)
  have cat: "Category (permission_error_at p) = ErrorCategoryPermission" for p
    by (simp add: permission_error_at_def NewPermissionError_def)
  show ?thesis
    using aggregator_bounded_fifo [of 2 "[OpAddError (permission_error_at ''a''),
                     OpAddError (permission_error_at ''b''),
                     OpAddError (permission_error_at ''c'')]" undefined ErrorCategoryPermission]
    unfolding run by (simp add: count_category_def cat)
qed

section \<open>Scanner: digest algorithm tags\<close>

text \<open>
  The scanner of the second part of the counterexample: it has scanned \<open>/src/a.txt\<close>
  under \<open>blake3\<close>, and then its tag was set to \<open>crc32\<close>.
\<close>

lemma retagged_scanner_eq:
  "retagged_scanner =
     \<lparr>maxConcurrency = 1, checksumAlgo = ''crc32'',
      cache = [''/src/a.txt'' \<mapsto> \<lparr>checksum = ''b3-5'', modTime = 1, entrySize = 5\<rparr>]\<rparr>"
  by (simp add: retagged_scanner_def Scan_def ScanWithFilter_def one_file_walk_def
      scanner_with_tag_def SetChecksumAlgorithm_def NewFileScanner_def getFileInfo_def
      getChecksum_def calculateChecksum_def hello_entry_def hello_bytes_def demo_hashers_def
      demo_blake3_def time_Unix_def Let_def)

text \<open>
  The claim C7 as stated: for every tag outside \<open>blake3\<close> and \<open>sha256\<close>, \<open>md5\<close>
  included, a scanned file gets no digest and no tag. The code has a branch for
  \<open>md5\<close> (it hashes with SHA-256), and the repository's test
  \<open>TestFileScannerSetChecksumAlgorithm\<close> sets that tag: with it, a non-empty regular
  file gets a digest and the tag \<open>md5\<close>. And a cached digest is returned before the
  tag is looked at: a file scanned under \<open>blake3\<close> and scanned again, unchanged, under
  the tag \<open>crc32\<close> is returned with its \<open>blake3\<close> digest and the tag \<open>crc32\<close>.
\<close>

theorem md5_tag_counterexample:
  "checksumAlgo (scanner_with_tag ''md5'') = ''md5'' \<and>
   (case getFileInfo (scanner_with_tag ''md5'') demo_hashers hello_entry of
      (s', Inr info) \<Rightarrow> Checksum info = ''s2-5'' \<and> ChecksumAlgo info = ''md5'' \<and> \<not> digestless info
    | (s', Inl e) \<Rightarrow> False) \<and>
   checksumAlgo retagged_scanner = ''crc32'' \<and>
   snd (Scan retagged_scanner demo_hashers ''/src'' one_file_walk) =
     Inr [\<lparr>Path = ''/src/a.txt'', Size = 5, ModTime = 1000000000, Mode = 0x1A4, IsDir = False,
           Checksum = ''b3-5'', ChecksumAlgo = ''crc32''\<rparr>]"
  by (simp add: retagged_scanner_eq Scan_def ScanWithFilter_def one_file_walk_def
      scanner_with_tag_def SetChecksumAlgorithm_def NewFileScanner_def getFileInfo_def
      getChecksum_def calculateChecksum_def hello_entry_def hello_bytes_def demo_hashers_def
      demo_sha256_def digestless_def time_Unix_def Let_def)

lemma calculateChecksum_accepts:
  "(\<exists>d. calculateChecksum s hs (Inr bs) = Inr d) = (checksumAlgo s \<in> {''blake3'', ''sha256'', ''md5''})"
  by (simp add: calculateChecksum_def)

lemma calculateChecksum_unknown_tag:
  assumes "checksumAlgo s \<notin> {''blake3'', ''sha256'', ''md5''}"
  shows "calculateChecksum s hs rd =
           Inl (ErrorString (''unsupported checksum algorithm: '' @ checksumAlgo s))"
  using assms by (simp add: calculateChecksum_def)

lemma getFileInfo_state_unknown_tag:
  assumes "checksumAlgo s \<notin> {''blake3'', ''sha256'', ''md5''}"
  shows "fst (getFileInfo s hs ent) = s"
  using assms
  by (simp add: getFileInfo_def getChecksum_def calculateChecksum_unknown_tag Let_def
      split: sum.splits option.splits)

lemma getFileInfo_unknown_tag:
  assumes "checksumAlgo s \<notin> {''blake3'', ''sha256'', ''md5''}"
    and "entInfo ent = Inr st" and "\<not> valid_entry s (entPath ent) st"
  shows "getFileInfo s hs ent = (s, Inr (bare_record (entPath ent) st))"
  using assms
  by (auto simp add: getFileInfo_def getChecksum_def calculateChecksum_unknown_tag valid_entry_def
      bare_record_def Let_def split: option.splits)

lemma scan_entries_unknown_tag:
  assumes "checksumAlgo s \<notin> {''blake3'', ''sha256'', ''md5''}"
  shows "scan_entries s hs flt ents = (s, records_of s hs flt ents)"
proof (induction ents)
  case Nil
  then show ?case by (simp add: records_of_def)
next
  case (Cons ent ents)
  obtain r where r: "getFileInfo s hs ent = (s, r)"
    using getFileInfo_state_unknown_tag [OF assms, of hs ent] by (cases "getFileInfo s hs ent") simp
  show ?case
    using Cons.IH
    by (cases flt; cases r) (simp_all add: r records_of_def record_of_def)
qed

text \<open>
  C7, amended. A new scanner has the tag \<open>blake3\<close>. Hashing the bytes of a file
  gives a digest exactly when the tag is \<open>blake3\<close>, \<open>sha256\<close> or \<open>md5\<close>. For every
  other tag: a file that can be stat-ed and has no valid entry in the cache (no entry
  for its path, or one whose whole-second modification time or size is not the
  file's) gets the record without a digest and without an algorithm tag, and the
  scanner stays as it was; and a scan whose walk meets no error succeeds, leaves the
  scanner as it was, and returns for each entry the record that \<open>getFileInfo\<close> gives
  for it (\<open>records_of\<close>, the \<open>record_of\<close> each entry in the order of the walk),
  whatever the cache holds. Nothing is said here about the record of a file that has
  a valid cache entry.
\<close>

theorem digest_tags:
  "checksumAlgo (NewFileScanner n g) = ''blake3'' \<and>
   ((\<exists>d. calculateChecksum s hs (Inr bs) = Inr d) =
      (checksumAlgo s \<in> {''blake3'', ''sha256'', ''md5''})) \<and>
   (checksumAlgo s \<notin> {''blake3'', ''sha256'', ''md5''} \<longrightarrow>
      (\<forall>st. entInfo ent = Inr st \<and> \<not> valid_entry s (entPath ent) st \<longrightarrow>
         getFileInfo s hs ent = (s, Inr (bare_record (entPath ent) st)) \<and>
         record_of s hs None ent = [bare_record (entPath ent) st] \<and>
         digestless (bare_record (entPath ent) st)) \<and>
      (walkErr w = None \<and> acquireErr w = None \<longrightarrow>
         ScanWithFilter s hs path w flt = (s, Inr (records_of s hs flt (walkEntries w)))))"
proof -
  have "checksumAlgo (NewFileScanner n g) = ''blake3''"
    by (simp add: NewFileScanner_def)
  moreover note calculateChecksum_accepts [of s hs bs]
  moreover have "digestless (bare_record p st)" for p st
    by (simp add: digestless_def bare_record_def)
  moreover have "ScanWithFilter s hs path w flt = (s, Inr (records_of s hs flt (walkEntries w)))"
    if "checksumAlgo s \<notin> {''blake3'', ''sha256'', ''md5''}" "walkErr w = None" "acquireErr w = None"
    using that by (simp add: ScanWithFilter_def scan_entries_unknown_tag)
  moreover have "getFileInfo s hs ent = (s, Inr (bare_record (entPath ent) st)) \<and>
      record_of s hs None ent = [bare_record (entPath ent) st]"
    if "checksumAlgo s \<notin> {''blake3'', ''sha256'', ''md5''}" "entInfo ent = Inr st"
      "\<not> valid_entry s (entPath ent) st" for st
    using getFileInfo_unknown_tag [OF that, of hs] by (simp add: record_of_def)
  ultimately show ?thesis by blast
qed

text \<open>
  The tag \<open>md5\<close> gives a digest and the tag \<open>crc32\<close> gives none; a scan under
  \<open>crc32\<close> of \<open>/src/a.txt\<close>, modified since it was cached, and of \<open>/src/b.txt\<close>,
  never cached, succeeds and returns both without a digest.
\<close>

theorem digest_tags_witness:
  "(\<exists>d. calculateChecksum (scanner_with_tag ''md5'') demo_hashers (Inr hello_bytes) = Inr d) \<and>
   \<not> (\<exists>d. calculateChecksum retagged_scanner demo_hashers (Inr hello_bytes) = Inr d) \<and>
   ScanWithFilter retagged_scanner demo_hashers ''/src'' changed_walk None =
     (retagged_scanner,
      Inr [\<lparr>Path = ''/src/a.txt'', Size = 5, ModTime = 2000000000, Mode = 0x1A4, IsDir = False,
            Checksum = [], ChecksumAlgo = []\<rparr>,
           \<lparr>Path = ''/src/b.txt'', Size = 5, ModTime = 1000000000, Mode = 0x1A4, IsDir = False,
            Checksum = [], ChecksumAlgo = []\<rparr>])"
proof -
  have t: "checksumAlgo retagged_scanner \<notin> {''blake3'', ''sha256'', ''md5''}"
    by (simp add: retagged_scanner_eq)
  have m: "checksumAlgo (scanner_with_tag ''md5'') \<in> {''blake3'', ''sha256'', ''md5''}"
    by (simp add: scanner_with_tag_def SetChecksumAlgorithm_def)
  have w: "walkErr changed_walk = None \<and> acquireErr changed_walk = None"
    "walkEntries changed_walk = [changed_entry, other_entry]"
    by (simp_all add: changed_walk_def)
  have a: "entInfo changed_entry =
             Inr \<lparr>stSize = 5, stModTime = 2000000000, stMode = 0x1A4, stIsDir = False\<rparr> \<and>
           \<not> valid_entry retagged_scanner (entPath changed_entry)
               \<lparr>stSize = 5, stModTime = 2000000000, stMode = 0x1A4, stIsDir = False\<rparr>"
    by (simp add: changed_entry_def valid_entry_def retagged_scanner_eq time_Unix_def)
  have b: "entInfo other_entry =
             Inr \<lparr>stSize = 5, stModTime = 1000000000, stMode = 0x1A4, stIsDir = False\<rparr> \<and>
           \<not> valid_entry retagged_scanner (entPath other_entry)
               \<lparr>stSize = 5, stModTime = 1000000000, stMode = 0x1A4, stIsDir = False\<rparr>"
    by (simp add: other_entry_def valid_entry_def retagged_scanner_eq)
  show ?thesis
    using digest_tags [of 1 8 "scanner_with_tag ''md5''" demo_hashers hello_bytes hello_entry
        one_file_walk "''/src''" None]
      digest_tags [of 1 8 retagged_scanner demo_hashers hello_bytes changed_entry
        changed_walk "''/src''" None]
      digest_tags [of 1 8 retagged_scanner demo_hashers hello_bytes other_entry
        changed_walk "''/src''" None]
    using t m w a b
    by (simp add: records_of_def record_of_def bare_record_def changed_entry_def other_entry_def)
qed


section \<open>Copier: what is left at the destination after a failure\<close>

lemma filepath_Dir_dst: "filepath_Dir ''/dst/a.txt'' = ''/dst''"
  by (simp add: filepath_Dir_def)

text \<open>
  C3. The claim: whenever \<open>CopyFile\<close> returns an error after the destination has been
  created, no file is left at the destination path. The code removes the destination
  on a content-copy error and on a size mismatch only. Here the source \<open>/src/a.txt\<close>
  exists and the destination does not: when opening the source fails, the empty
  destination file stays; when \<open>fsync\<close> fails, the complete copy stays. In both cases
  the error wraps its cause.
\<close>

theorem CopyFile_leaves_destination:
  "CopyFile buffered_copier unreadable_source_env None one_file_fs ''/src/a.txt'' ''/dst/a.txt'' =
     (one_file_fs(''/dst'' \<mapsto> Directory perm_0o750 2000000000,
                  ''/dst/a.txt'' \<mapsto> RegularFile [] 0x1A4 2000000000),
      Some (WrapError ''failed to open source file /src/a.txt: ''
              (PathError ''open'' ''/src/a.txt'' (Errno EACCES)))) \<and>
   CopyFile buffered_copier fsync_fails_env None one_file_fs ''/src/a.txt'' ''/dst/a.txt'' =
     (one_file_fs(''/dst'' \<mapsto> Directory perm_0o750 2000000000,
                  ''/dst/a.txt'' \<mapsto> RegularFile hello_bytes 0x1A4 2000000000),
      Some (WrapError ''failed to sync destination file: ''
              (PathError ''sync'' ''/dst/a.txt'' (Errno EIO))))"
  by (simp add: CopyFile_def copyRegularFile_def os_Stat_def os_MkdirAll_def os_OpenFile_create_def
      os_Open_def unreadable_source_env_def fsync_fails_env_def quiet_env_def one_file_fs_def
      buffered_copier_def NewFileCopier_def filepath_Dir_dst hello_bytes_def fs_append_def Let_def)

text \<open>The two failures after which the code does remove the destination.\<close>

lemma copyRegularFile_copy_error_cleans:
  assumes "copyRegularFile fc env ctx fs src dst srcInfo = (fs', Some err)"
    and "failRemove env = None"
    and "(\<exists>e. err = WrapError ''failed to copy file content: '' e) \<or> (\<exists>m. err = ErrorString m)"
  shows "fs' dst = None"
  using assms
  by (auto simp: copyRegularFile_def os_Remove_def Let_def split: prod.splits option.splits if_splits)

lemma CopyFile_write_error_removes:
  "CopyFile buffered_copier write_fails_env None one_file_fs ''/src/a.txt'' ''/dst/a.txt'' =
     (one_file_fs(''/dst'' \<mapsto> Directory perm_0o750 2000000000),
      Some (WrapError ''failed to copy file content: ''
              (PathError ''write'' ''/dst/a.txt'' (Errno ENOSPC))))"
  by (simp add: CopyFile_def copyRegularFile_def os_Stat_def os_MkdirAll_def os_OpenFile_create_def
      os_Open_def write_fails_env_def quiet_env_def one_file_fs_def os_Remove_def
      buffered_copier_def NewFileCopier_def filepath_Dir_dst hello_bytes_def fs_append_def Let_def
      fun_upd_twist)

section \<open>Scanner: the order of the per-entry work does not matter\<close>

text \<open>
  \<open>getFileInfo\<close> reads the cache at the entry's own path only and writes it there
  only. So when the walked paths are distinct, a scan returns for each entry the
  record computed from the scanner as it was before the scan.
\<close>

lemma getFileInfo_cache_other:
  "p \<noteq> entPath ent \<Longrightarrow> cache (fst (getFileInfo s hs ent)) p = cache s p"
  by (simp add: getFileInfo_def getChecksum_def Let_def split: sum.splits prod.splits option.splits)

lemma getFileInfo_tag:
  "checksumAlgo (fst (getFileInfo s hs ent)) = checksumAlgo s"
  by (simp add: getFileInfo_def getChecksum_def Let_def split: sum.splits prod.splits option.splits)

lemma getFileInfo_depends:
  assumes "cache s (entPath ent) = cache s' (entPath ent)" and "checksumAlgo s = checksumAlgo s'"
  shows "snd (getFileInfo s hs ent) = snd (getFileInfo s' hs ent)"
  using assms
  by (simp add: getFileInfo_def getChecksum_def calculateChecksum_def Let_def
      split: sum.splits prod.splits option.splits)

lemma record_of_cong:
  assumes "cache s (entPath ent) = cache s' (entPath ent)" and "checksumAlgo s = checksumAlgo s'"
  shows "record_of s hs flt ent = record_of s' hs flt ent"
  by (simp add: record_of_def getFileInfo_depends [OF assms])

lemma records_of_cong:
  assumes "\<forall>ent \<in> set ents. cache s (entPath ent) = cache s' (entPath ent)"
    and "checksumAlgo s = checksumAlgo s'"
  shows "records_of s hs flt ents = records_of s' hs flt ents"
proof -
  have "record_of s hs flt ent = record_of s' hs flt ent" if "ent \<in> set ents" for ent
    using that assms by (intro record_of_cong) simp_all
  then have "map (record_of s hs flt) ents = map (record_of s' hs flt) ents"
    by (simp cong: map_cong)
  then show ?thesis unfolding records_of_def by (rule arg_cong)
qed

lemma scan_entries_step:
  "scan_entries s hs flt (ent # ents) =
     (fst (scan_entries (fst (getFileInfo s hs ent)) hs flt ents),
      record_of s hs flt ent @ snd (scan_entries (fst (getFileInfo s hs ent)) hs flt ents))"
  by (simp add: record_of_def split: prod.splits sum.splits option.splits)

lemma scan_entries_tag:
  "checksumAlgo (fst (scan_entries s hs flt ents)) = checksumAlgo s"
proof (induction ents arbitrary: s)
  case Nil
  then show ?case by simp
next
  case (Cons ent ents)
  show ?case
    by (simp only: scan_entries_step fst_conv Cons.IH getFileInfo_tag)
qed

lemma scan_entries_cache_other:
  "p \<notin> entPath ` set ents \<Longrightarrow> cache (fst (scan_entries s hs flt ents)) p = cache s p"
proof (induction ents arbitrary: s)
  case Nil
  then show ?case by simp
next
  case (Cons ent ents)
  then have a: "p \<noteq> entPath ent" and b: "p \<notin> entPath ` set ents" by auto
  show ?case
    by (simp only: scan_entries_step fst_conv Cons.IH [OF b] getFileInfo_cache_other [OF a])
qed

lemma scan_entries_records:
  "distinct (map entPath ents) \<Longrightarrow> snd (scan_entries s hs flt ents) = records_of s hs flt ents"
proof (induction ents arbitrary: s)
  case Nil
  then show ?case by (simp add: records_of_def)
next
  case (Cons ent ents)
  let ?s' = "fst (getFileInfo s hs ent)"
  from Cons.prems have d: "distinct (map entPath ents)" and n: "entPath ent \<notin> entPath ` set ents"
    by auto
  have "cache ?s' (entPath x) = cache s (entPath x)" if "x \<in> set ents" for x
  proof -
    from that n have "entPath x \<noteq> entPath ent" by (metis image_eqI)
    then show ?thesis by (rule getFileInfo_cache_other)
  qed
  then have "\<forall>x \<in> set ents. cache ?s' (entPath x) = cache s (entPath x)"
    by simp
  then have "records_of ?s' hs flt ents = records_of s hs flt ents"
    by (rule records_of_cong) (rule getFileInfo_tag)
  then show ?case
    by (simp only: scan_entries_step snd_conv Cons.IH [OF d]) (simp add: records_of_def)
qed

lemma Scan_records:
  assumes "walkErr w = None" and "acquireErr w = None" and "distinct (map entPath (walkEntries w))"
  shows "Scan s hs path w =
           (fst (scan_entries s hs None (walkEntries w)), Inr (records_of s hs None (walkEntries w)))"
proof -
  obtain a b where ab: "scan_entries s hs None (walkEntries w) = (a, b)"
    by (cases "scan_entries s hs None (walkEntries w)")
  with scan_entries_records [OF assms(3), of s hs None]
  have "b = records_of s hs None (walkEntries w)" by simp
  with ab assms(1,2) show ?thesis
    by (simp add: Scan_def ScanWithFilter_def)
qed

lemma scanned_source_records:
  assumes "walkErr srcWalk = None" and "acquireErr srcWalk = None"
    and "distinct (map entPath (walkEntries srcWalk))"
  shows "scanned_source e hs source srcWalk = Inr (records_of (scanner e) hs None (walkEntries srcWalk))"
  by (simp add: scanned_source_def Scan_records [OF assms])

lemma scanned_dest_records:
  assumes "walkErr srcWalk = None" and "acquireErr srcWalk = None"
    and "walkErr dstWalk = None" and "acquireErr dstWalk = None"
    and "distinct (map entPath (walkEntries srcWalk @ walkEntries dstWalk))"
  shows "scanned_dest e hs source srcWalk destination dstWalk =
           records_of (scanner e) hs None (walkEntries dstWalk)"
proof -
  let ?sc1 = "fst (scan_entries (scanner e) hs None (walkEntries srcWalk))"
  have ds: "distinct (map entPath (walkEntries srcWalk))"
    and dd: "distinct (map entPath (walkEntries dstWalk))"
    and disj: "\<forall>x \<in> set (walkEntries dstWalk). entPath x \<notin> entPath ` set (walkEntries srcWalk)"
    using assms(5) by auto
  have "records_of ?sc1 hs None (walkEntries dstWalk) =
          records_of (scanner e) hs None (walkEntries dstWalk)"
    using disj by (intro records_of_cong) (auto simp: scan_entries_cache_other scan_entries_tag)
  then show ?thesis
    by (simp add: scanned_dest_def Scan_records [OF assms(1,2) ds] Scan_records [OF assms(3,4) dd])
qed

section \<open>Sync engine: the start of a run\<close>

lemma dispatch_None: "dispatch None fs = (fs, None)"
  by (induction fs) simp_all

lemma dispatch_length: "length (fst (dispatch ctx fs)) \<le> length fs"
proof (induction fs arbitrary: ctx)
  case Nil
  then show ?case by simp
next
  case (Cons f fs)
  obtain r ctx' where p: "ctx_poll ctx = (r, ctx')" by (cases "ctx_poll ctx")
  obtain started res where d: "dispatch ctx' fs = (started, res)" by (cases "dispatch ctx' fs")
  with Cons [of ctx'] have "length started \<le> length fs" by simp
  with p d show ?case by (cases r) simp_all
qed

lemma Sync_start_workers:
  assumes "Sync_start e hs w srcWalk dstWalk ctx source destination opts = SyncStarted e0 ws r"
  shows "\<exists>sourceFiles.
           scanned_source e hs source srcWalk = Inr sourceFiles \<and>
           ws = map (worker (resolver e) (retryManager e) w source destination
                       (destMap_of w destination (scanned_dest e hs source srcWalk destination dstWalk))
                       opts)
                  (fst (dispatch ctx sourceFiles)) \<and>
           r = snd (dispatch ctx sourceFiles) \<and>
           stats e0 = emptyStats\<lparr>FilesScanned := int (length sourceFiles)\<rparr> \<and>
           errorHandler e0 = errorHandler e \<and> copierCalls e0 = copierCalls e"
proof -
  obtain sc1 r1 where s1: "Scan (scanner e) hs source srcWalk = (sc1, r1)"
    by (cases "Scan (scanner e) hs source srcWalk")
  obtain sc2 r2 where s2: "Scan sc1 hs destination dstWalk = (sc2, r2)"
    by (cases "Scan sc1 hs destination dstWalk")
  show ?thesis
  proof (cases r1)
    case (Inl err)
    with assms s1 show ?thesis by (simp add: Sync_start_def resetStats_def Let_def)
  next
    case (Inr sourceFiles)
    with assms s1 s2 show ?thesis
      by (cases r2)
         (auto simp: Sync_start_def resetStats_def Let_def scanned_source_def scanned_dest_def
            split_beta split: if_splits)
  qed
qed

lemma Sync_start_started:
  assumes "walkErr srcWalk = None" and "acquireErr srcWalk = None"
    and "walkErr dstWalk = None" and "acquireErr dstWalk = None"
    and "distinct (map entPath (walkEntries srcWalk @ walkEntries dstWalk))"
    and "\<not> Workers opts < 0"
  shows "\<exists>e0. Sync_start e hs w srcWalk dstWalk ctx source destination opts =
           SyncStarted e0
             (map (worker (resolver e) (retryManager e) w source destination
                     (destMap_of w destination (records_of (scanner e) hs None (walkEntries dstWalk)))
                     opts)
                (fst (dispatch ctx (records_of (scanner e) hs None (walkEntries srcWalk)))))
             (snd (dispatch ctx (records_of (scanner e) hs None (walkEntries srcWalk)))) \<and>
         stats e0 = emptyStats\<lparr>FilesScanned :=
                      int (length (records_of (scanner e) hs None (walkEntries srcWalk)))\<rparr> \<and>
         errorHandler e0 = errorHandler e \<and> copierCalls e0 = copierCalls e"
proof -
  let ?sc1 = "fst (scan_entries (scanner e) hs None (walkEntries srcWalk))"
  have ds: "distinct (map entPath (walkEntries srcWalk))"
    and dd: "distinct (map entPath (walkEntries dstWalk))"
    and disj: "\<forall>x \<in> set (walkEntries dstWalk). entPath x \<notin> entPath ` set (walkEntries srcWalk)"
    using assms(5) by auto
  have s1: "Scan (scanner e) hs source srcWalk =
              (?sc1, Inr (records_of (scanner e) hs None (walkEntries srcWalk)))"
    using Scan_records [OF assms(1,2) ds, of "scanner e" hs source] by simp
  have "records_of ?sc1 hs None (walkEntries dstWalk) =
          records_of (scanner e) hs None (walkEntries dstWalk)"
    using disj by (intro records_of_cong) (auto simp: scan_entries_cache_other scan_entries_tag)
  then have s2: "Scan ?sc1 hs destination dstWalk =
              (fst (scan_entries ?sc1 hs None (walkEntries dstWalk)),
               Inr (records_of (scanner e) hs None (walkEntries dstWalk)))"
    using Scan_records [OF assms(3,4) dd, of ?sc1 hs destination] by simp
  show ?thesis
    using assms(6)
    by (simp add: Sync_start_def Let_def s1 s2 resetStats_def split_beta)
qed

text \<open>The writes of a goroutine in the three cases the scenarios below meet.\<close>

lemma worker_copy_failure:
  assumes "fp_Rel w source (Path f) = Inr rel" and "dm rel = None"
    and "\<not> DryRun opts" and "\<not> IsDir f"
    and "ExecuteWithRetry rm (copyFileErr w (Path f) (fp_Join w destination rel))
           (retryWaitErr w (Path f)) = (n, Some copyErr)"
  shows "worker cr rm w source destination dm opts f =
           [CopierCalled n, PushError (ClassifySyncError (clock w) ''copy'' (Path f) copyErr),
            IncErrorsEncountered, IncErrorsEncountered, Progressed (Path f)]"
  using assms by (simp add: worker_def syncFile_def Let_def)

lemma worker_copy_success:
  assumes "fp_Rel w source (Path f) = Inr rel" and "dm rel = None"
    and "\<not> DryRun opts" and "\<not> IsDir f"
    and "ExecuteWithRetry rm (copyFileErr w (Path f) (fp_Join w destination rel))
           (retryWaitErr w (Path f)) = (n, None)"
  shows "worker cr rm w source destination dm opts f =
           [CopierCalled n, AddBytesTransferred (Size f), IncFilesCreated, IncFilesChanged,
            Progressed (Path f)]"
  using assms by (simp add: worker_def syncFile_def Let_def)

lemma worker_in_sync:
  assumes "fp_Rel w source (Path f) = Inr rel" and "dm rel = Some d"
    and "\<not> needsSync f d opts"
  shows "worker cr rm w source destination dm opts f = [Progressed (Path f)]"
  using assms by (simp add: worker_def syncFile_def Let_def)

section \<open>Sync engine: interleavings\<close>

text \<open>Running the goroutines one after the other is one of the interleavings.\<close>

lemma sync_step_lift:
  assumes "sync_step (e, ws) (e', ws')"
  shows "sync_step (e, v # ws) (e', v # ws')"
  using assms
proof (cases rule: sync_step.cases)
  case (step i x rest)
  then have "Suc i < length (v # ws)" and "(v # ws) ! Suc i = x # rest" by simp_all
  from sync_step.step [OF this, of e] step show ?thesis by simp
qed

lemma sync_reaches_lift:
  assumes "sync_reaches (e, ws) (e', ws')"
  shows "sync_reaches (e, v # ws) (e', v # ws')"
  using assms unfolding sync_reaches_def
proof (induction rule: rtranclp_induct2)
  case refl
  then show ?case by simp
next
  case (step a b c d)
  from sync_step_lift [OF step(2), of v] step(3) show ?case by simp
qed

lemma sync_reaches_first:
  "sync_reaches (e, w # ws) (foldl apply_effect e w, [] # ws)"
proof (induction w arbitrary: e)
  case Nil
  then show ?case by (simp add: sync_reaches_def)
next
  case (Cons x w)
  have "sync_step (e, (x # w) # ws) (apply_effect e x, ((x # w) # ws)[0 := w])"
    by (rule sync_step.step) simp_all
  then have "sync_step (e, (x # w) # ws) (apply_effect e x, w # ws)" by simp
  with Cons [of "apply_effect e x"] show ?case
    unfolding sync_reaches_def by (simp add: converse_rtranclp_into_rtranclp)
qed

lemma sync_reaches_sequential:
  "sync_reaches (e, ws) (foldl apply_effect e (concat ws), map (\<lambda>w. []) ws)"
proof (induction ws arbitrary: e)
  case Nil
  then show ?case by (simp add: sync_reaches_def)
next
  case (Cons w ws)
  have "sync_reaches (foldl apply_effect e w, [] # ws)
          (foldl apply_effect (foldl apply_effect e w) (concat ws), [] # map (\<lambda>w. []) ws)"
    by (rule sync_reaches_lift) (rule Cons)
  with sync_reaches_first [of e w ws] show ?case
    unfolding sync_reaches_def by simp
qed

text \<open>
  The invariant of the counters: it holds when the goroutines start and every write
  keeps it.
\<close>

lemma pending_update:
  "i < length ws \<Longrightarrow> pending f (ws[i := v]) = pending f ws - f (ws ! i) + f v"
  unfolding pending_def
proof (induction ws arbitrary: i)
  case Nil
  then show ?case by simp
next
  case (Cons w ws)
  then show ?case by (cases i) simp_all
qed

lemma excess_nonneg: "0 \<le> excess w"
  by (cases w) simp_all

lemma counted_nonneg: "0 \<le> counted w"
  by (simp add: counted_def)

lemma pending_nonneg: "(\<And>w. 0 \<le> f w) \<Longrightarrow> 0 \<le> pending f ws"
  unfolding pending_def by (induction ws) (simp_all add: add_nonneg_nonneg)

lemma pending_map_zero: "(\<And>x. f (g x) = 0) \<Longrightarrow> pending f (map g xs) = 0"
  unfolding pending_def by (induction xs) simp_all

lemma pending_map_le_length: "(\<And>x. f (g x) \<le> 1) \<Longrightarrow> pending f (map g xs) \<le> int (length xs)"
  unfolding pending_def
proof (induction xs)
  case Nil
  then show ?case by simp
next
  case (Cons x xs)
  then have "f (g x) \<le> 1" and "sum_list (map f (map g xs)) \<le> int (length xs)" by simp_all
  then show ?case by simp
qed

lemma excess_append_neutral:
  "\<forall>x \<in> set pre. delta x = 0 \<Longrightarrow> excess (pre @ w) = excess w"
  by (induction pre) (simp_all add: excess_nonneg)

lemma counted_append: "counted (pre @ w) = counted pre + counted w"
  by (simp add: counted_def)

lemma syncFile_conflict_neutral:
  "(syncFile_conflict cr w sf df dp = Inl (effs, r) \<longrightarrow> excess effs = 0 \<and> counted effs = 0) \<and>
   (syncFile_conflict cr w sf df dp = Inr effs \<longrightarrow> (\<forall>x \<in> set effs. delta x = 0) \<and> counted effs = 0)"
  by (auto simp: syncFile_conflict_def counted_def
      split: option.splits prod.splits ConflictResolution.splits)

lemma syncFile_shape:
  "excess (fst (syncFile cr rm w source destination sf dm opts)) = 0 \<and>
   counted (fst (syncFile cr rm w source destination sf dm opts)) \<le> 1"
proof (cases "fp_Rel w source (Path sf)")
  case (Inl err)
  then show ?thesis by (simp add: syncFile_def counted_def)
next
  case (Inr relPath)
  show ?thesis
  proof (cases "dm relPath")
    case None
    with Inr show ?thesis
      by (simp add: syncFile_def Let_def counted_def split: option.splits prod.splits)
  next
    case (Some df)
    show ?thesis
    proof (cases "needsSync sf df opts")
      case False
      with Inr Some show ?thesis by (simp add: syncFile_def Let_def counted_def)
    next
      case True
      show ?thesis
      proof (cases "syncFile_conflict cr w sf df (fp_Join w destination relPath)")
        case (Inl r)
        obtain effs res where r: "r = (effs, res)" by (cases r)
        with Inl syncFile_conflict_neutral [of cr w sf df "fp_Join w destination relPath" effs res]
        have "excess effs = 0 \<and> counted effs = 0" by simp
        with Inr Some True Inl r show ?thesis by (simp add: syncFile_def Let_def)
      next
        case (Inr effs)
        with syncFile_conflict_neutral [of cr w sf df "fp_Join w destination relPath" effs]
        have n: "\<forall>x \<in> set effs. delta x = 0" "counted effs = 0" by simp_all
        have z: "excess effs = 0" using excess_append_neutral [OF n(1), of "[]"] by simp
        from \<open>fp_Rel w source (Path sf) = Inr relPath\<close> Some True Inr show ?thesis
          by (simp add: syncFile_def Let_def excess_append_neutral [OF n(1)] counted_append n(2) z
              split: option.splits prod.splits)
             (simp add: counted_def)
      qed
    qed
  qed
qed

lemma worker_shape:
  "excess (worker cr rm w source destination dm opts f) = 0 \<and>
   counted (worker cr rm w source destination dm opts f) \<le> 1"
proof -
  obtain effs r where s: "syncFile cr rm w source destination f dm opts = (effs, r)"
    by (cases "syncFile cr rm w source destination f dm opts")
  with syncFile_shape [of cr rm w source destination f dm opts]
  have a: "excess effs = 0" "counted effs \<le> 1" by simp_all
  have b: "excess (effs @ tl) = excess effs" if "\<forall>x \<in> set tl. delta x = 0" for tl
    using that by (induction effs) (simp_all add: excess_append_neutral [of _ "[]", simplified])
  show ?thesis
    using a by (cases r) (simp_all add: worker_def s b counted_append, simp_all add: counted_def)
qed

lemma counters_inv_step:
  assumes "sync_step c c'" and "counters_inv c"
  shows "counters_inv c'"
  using assms
proof (cases rule: sync_step.cases)
  case (step i ws x rest e)
  have pe: "pending excess (ws[i := rest]) = pending excess ws - excess (x # rest) + excess rest"
    and pc: "pending counted (ws[i := rest]) = pending counted ws - counted (x # rest) + counted rest"
    using step(3,4) by (simp_all add: pending_update)
  from assms(2) step(1) have inv:
    "FilesChanged (stats e) + pending excess ws \<le> FilesCreated (stats e) + FilesModified (stats e)"
    "FilesCreated (stats e) + FilesModified (stats e) + pending counted ws \<le> FilesScanned (stats e)"
    by (simp_all add: counters_inv_def)
  show ?thesis
    unfolding step(2) counters_inv_def prod.case pe pc
    using inv excess_nonneg [of rest]
    by (cases x) (simp_all add: counted_def max_def)
qed

lemma counters_inv_reaches:
  assumes "sync_reaches c c'" and "counters_inv c"
  shows "counters_inv c'"
  using assms unfolding sync_reaches_def
  by (induction rule: rtranclp_induct) (auto intro: counters_inv_step)

lemma counters_inv_start:
  assumes "Sync_start e hs w srcWalk dstWalk ctx source destination opts = SyncStarted e0 ws r"
  shows "counters_inv (e0, ws)"
proof -
  from Sync_start_workers [OF assms] obtain sourceFiles where
    ws: "ws = map (worker (resolver e) (retryManager e) w source destination
                       (destMap_of w destination (scanned_dest e hs source srcWalk destination dstWalk))
                       opts)
                  (fst (dispatch ctx sourceFiles))"
    and st: "stats e0 = emptyStats\<lparr>FilesScanned := int (length sourceFiles)\<rparr>"
    by blast
  have a: "pending excess ws = 0"
    unfolding ws by (rule pending_map_zero) (simp add: worker_shape)
  have "pending counted ws \<le> int (length (fst (dispatch ctx sourceFiles)))"
    unfolding ws by (rule pending_map_le_length) (simp add: worker_shape)
  with dispatch_length [of ctx sourceFiles]
  have b: "pending counted ws \<le> int (length sourceFiles)" by linarith
  show ?thesis
    using a b by (simp add: counters_inv_def st emptyStats_def)
qed

section \<open>Sync engine: the scenarios\<close>

lemma rel_root: "demo_Rel root root = Inr ''.''"
  by (simp add: demo_Rel_def)

lemma rel_child: "demo_Rel root (child root n) = Inr n"
  by (simp add: demo_Rel_def child_def)

lemma child_eq: "child root n = child root m \<longleftrightarrow> n = m"
  by (simp add: child_def)

lemma join_child: "n \<noteq> ''.'' \<Longrightarrow> demo_Join dir n = child dir n"
  by (simp add: demo_Join_def)

lemma child_neq_root: "child root n \<noteq> root"
  by (simp add: child_def)

lemma root_neq_child: "root \<noteq> child root n"
  by (simp add: child_def)

lemma root_not_child: "root \<notin> set (map (child root) names)"
  by (induction names) (simp_all add: root_neq_child)

lemma src_dst_children:
  "child ''/src'' n \<noteq> child ''/dst'' m" "child ''/dst'' m \<noteq> child ''/src'' n"
  "child ''/src'' n \<noteq> ''/dst''" "''/dst'' \<noteq> child ''/src'' n"
  "child ''/dst'' n \<noteq> ''/src''" "''/src'' \<noteq> child ''/dst'' n"
  by (simp_all add: child_def)

lemma distinct_children: "distinct names \<Longrightarrow> distinct (map (\<lambda>n. child root n) names)"
  by (simp add: distinct_map inj_on_def child_eq)

lemma tree_walk_paths:
  "map entPath (walkEntries (tree_walk root names)) = root # map (child root) names"
  by (simp add: tree_walk_def dir_entry_at_def file_entry_at_def comp_def)

lemma tree_walk_ok: "walkErr (tree_walk root names) = None" "acquireErr (tree_walk root names) = None"
  by (simp_all add: tree_walk_def)

lemma distinct_src_dst:
  assumes "distinct ns" and "distinct ms"
  shows "distinct (map entPath (walkEntries (tree_walk ''/src'' ns) @ walkEntries (tree_walk ''/dst'' ms)))"
proof -
  have "set (''/src'' # map (child ''/src'') ns) \<inter> set (''/dst'' # map (child ''/dst'') ms) = {}"
    by (auto simp: src_dst_children)
  moreover have "distinct (''/src'' # map (child ''/src'') ns)"
    using distinct_children [OF assms(1), of "''/src''"] root_not_child [of "''/src''" ns]
    by simp
  moreover have "distinct (''/dst'' # map (child ''/dst'') ms)"
    using distinct_children [OF assms(2), of "''/dst''"] root_not_child [of "''/dst''" ms]
    by simp
  ultimately show ?thesis
    by (simp only: map_append tree_walk_paths distinct_append)
qed

lemma mirror_workers_ok: "\<not> Workers mirrorOptions < 0"
  by (simp add: mirrorOptions_def)

lemma engine_parts:
  "resolver (NewSyncEngine g) = NewConflictResolver None"
  "retryManager (NewSyncEngine g) = defaultRetryConfig"
  "errorHandler (NewSyncEngine g) = NewErrorHandler 1000"
  "copierCalls (NewSyncEngine g) = 0"
  by (simp_all add: NewSyncEngine_def)

lemma records_of_tree_walk:
  "records_of (scanner (NewSyncEngine g)) demo_hashers None (walkEntries (tree_walk root names)) =
     dir_record root # map (\<lambda>n. file_record (child root n)) names"
proof -
  have d: "record_of (scanner (NewSyncEngine g)) demo_hashers None (dir_entry_at p) = [dir_record p]" for p
    by (simp add: record_of_def getFileInfo_def dir_entry_at_def dir_record_def Let_def)
  have f: "record_of (scanner (NewSyncEngine g)) demo_hashers None (file_entry_at p) = [file_record p]" for p
    by (simp add: record_of_def getFileInfo_def getChecksum_def calculateChecksum_def
        file_entry_at_def file_record_def Let_def NewSyncEngine_def NewFileScanner_def
        demo_hashers_def demo_blake3_def hello_bytes_def)
  have "concat (map (record_of (scanner (NewSyncEngine g)) demo_hashers None)
                  (map (\<lambda>n. file_entry_at (child root n)) names)) =
          map (\<lambda>n. file_record (child root n)) names"
    by (induction names) (simp_all add: f)
  then show ?thesis
    by (simp add: records_of_def tree_walk_def d)
qed

lemma destMap_empty_dir:
  "destMap_of s5_world ''/dst'' [dir_record ''/dst''] = [''.'' \<mapsto> dir_record ''/dst'']"
  by (simp add: destMap_of_def s5_world_def quiet_world_def rel_root dir_record_def)

lemma destMap_quiet_empty_dir:
  "destMap_of quiet_world ''/dst'' [dir_record ''/dst''] = [''.'' \<mapsto> dir_record ''/dst'']"
  by (simp add: destMap_of_def quiet_world_def rel_root dir_record_def)

lemma destMap_mirrored:
  "destMap_of quiet_world ''/dst'' [dir_record ''/dst'', file_record (child ''/dst'' ''a.txt'')] =
     [''.'' \<mapsto> dir_record ''/dst'', ''a.txt'' \<mapsto> file_record (child ''/dst'' ''a.txt'')]"
  by (simp add: destMap_of_def quiet_world_def rel_root rel_child dir_record_def file_record_def)

lemma denied_error_category:
  "Category (ClassifySyncError t ''copy'' p denied_error) = ErrorCategoryPermission"
proof -
  have "\<not> isNetworkError denied_error" and "isPermissionError denied_error"
    by code_simp+
  then show ?thesis
    by (simp add: ClassifySyncError_def NewPermissionError_def Let_def)
qed

lemma retry_denied:
  "ExecuteWithRetry defaultRetryConfig (denied_copy (child ''/src'' ''f3'') (child ''/dst'' ''f3''))
     (wait_completes p) = (3, Some denied_error)"
  by (simp add: ExecuteWithRetry_def defaultRetryConfig_def denied_copy_def wait_completes_def
      denied_error_def show_int_def child_def)

lemma retry_ok:
  "n \<noteq> ''f3'' \<Longrightarrow>
   ExecuteWithRetry defaultRetryConfig (denied_copy (child ''/src'' n) dst) (wait_completes p) = (1, None)"
  by (simp add: ExecuteWithRetry_def defaultRetryConfig_def denied_copy_def child_eq)

lemma s5_worker_root:
  "worker cr rm s5_world ''/src'' ''/dst'' [''.'' \<mapsto> dir_record ''/dst''] mirrorOptions
     (dir_record ''/src'') = [Progressed ''/src'']"
proof -
  have "worker cr rm s5_world ''/src'' ''/dst'' [''.'' \<mapsto> dir_record ''/dst''] mirrorOptions
     (dir_record ''/src'') = [Progressed (Path (dir_record ''/src''))]"
    by (rule worker_in_sync [where rel = "''.''" and d = "dir_record ''/dst''"])
       (simp_all add: s5_world_def quiet_world_def rel_root dir_record_def needsSync_def time_Equal_def)
  then show ?thesis by (simp add: dir_record_def)
qed

lemma s5_worker_ok:
  assumes "n \<noteq> ''f3''" and "n \<noteq> ''.''"
  shows "worker cr defaultRetryConfig s5_world ''/src'' ''/dst'' [''.'' \<mapsto> dir_record ''/dst'']
           mirrorOptions (file_record (child ''/src'' n)) =
         [CopierCalled 1, AddBytesTransferred 5, IncFilesCreated, IncFilesChanged,
          Progressed (child ''/src'' n)]"
proof -
  have "worker cr defaultRetryConfig s5_world ''/src'' ''/dst'' [''.'' \<mapsto> dir_record ''/dst'']
           mirrorOptions (file_record (child ''/src'' n)) =
         [CopierCalled 1, AddBytesTransferred (Size (file_record (child ''/src'' n))), IncFilesCreated,
          IncFilesChanged, Progressed (Path (file_record (child ''/src'' n)))]"
    using assms
    by (intro worker_copy_success [where rel = n])
       (simp_all add: s5_world_def quiet_world_def rel_child file_record_def mirrorOptions_def
          retry_ok)
  then show ?thesis by (simp add: file_record_def)
qed

lemma s5_worker_denied:
  "worker cr defaultRetryConfig s5_world ''/src'' ''/dst'' [''.'' \<mapsto> dir_record ''/dst'']
           mirrorOptions (file_record (child ''/src'' ''f3'')) =
         [CopierCalled 3,
          PushError (ClassifySyncError 3000000000 ''copy'' (child ''/src'' ''f3'') denied_error),
          IncErrorsEncountered, IncErrorsEncountered, Progressed (child ''/src'' ''f3'')]"
proof -
  have "worker cr defaultRetryConfig s5_world ''/src'' ''/dst'' [''.'' \<mapsto> dir_record ''/dst'']
           mirrorOptions (file_record (child ''/src'' ''f3'')) =
         [CopierCalled 3,
          PushError (ClassifySyncError (clock s5_world) ''copy''
                       (Path (file_record (child ''/src'' ''f3''))) denied_error),
          IncErrorsEncountered, IncErrorsEncountered, Progressed (Path (file_record (child ''/src'' ''f3'')))]"
    by (intro worker_copy_failure [where rel = "''f3''"])
       (simp_all add: s5_world_def quiet_world_def rel_child file_record_def mirrorOptions_def
          join_child retry_denied)
  then show ?thesis by (simp add: file_record_def s5_world_def quiet_world_def)
qed

lemma s5_workers:
  "map (worker cr defaultRetryConfig s5_world ''/src'' ''/dst'' [''.'' \<mapsto> dir_record ''/dst'']
          mirrorOptions)
     (dir_record ''/src'' # map (\<lambda>n. file_record (child ''/src'' n)) ten_names) =
   [[Progressed ''/src''],
    copied (child ''/src'' ''f0''), copied (child ''/src'' ''f1''), copied (child ''/src'' ''f2''),
    [CopierCalled 3,
     PushError (ClassifySyncError 3000000000 ''copy'' (child ''/src'' ''f3'') denied_error),
     IncErrorsEncountered, IncErrorsEncountered, Progressed (child ''/src'' ''f3'')],
    copied (child ''/src'' ''f4''), copied (child ''/src'' ''f5''), copied (child ''/src'' ''f6''),
    copied (child ''/src'' ''f7''), copied (child ''/src'' ''f8''), copied (child ''/src'' ''f9'')]"
  by (simp add: ten_names_def s5_worker_ok s5_worker_denied s5_worker_root copied_def)

lemma s5_start:
  "\<exists>e0. Sync_start (NewSyncEngine 4) demo_hashers s5_world (tree_walk ''/src'' ten_names)
           (tree_walk ''/dst'' []) None ''/src'' ''/dst'' mirrorOptions =
         SyncStarted e0
           (map (worker (NewConflictResolver None) defaultRetryConfig s5_world ''/src'' ''/dst''
                   [''.'' \<mapsto> dir_record ''/dst''] mirrorOptions)
              (dir_record ''/src'' # map (\<lambda>n. file_record (child ''/src'' n)) ten_names)) None \<and>
         stats e0 = emptyStats\<lparr>FilesScanned := 11\<rparr> \<and>
         errorHandler e0 = NewErrorHandler 1000 \<and> copierCalls e0 = 0"
proof -
  have d: "distinct (map entPath (walkEntries (tree_walk ''/src'' ten_names) @
                                   walkEntries (tree_walk ''/dst'' [])))"
    by (rule distinct_src_dst) (simp_all add: ten_names_def)
  from Sync_start_started [OF tree_walk_ok tree_walk_ok d mirror_workers_ok,
      of "NewSyncEngine 4" demo_hashers s5_world None "''/src''" "''/dst''"]
  show ?thesis
    by (simp add: records_of_tree_walk dispatch_None engine_parts destMap_empty_dir ten_names_def)
qed

lemma dry_run_start:
  "\<exists>e0. Sync_start (NewSyncEngine 4) demo_hashers quiet_world (tree_walk ''/src'' [''a.txt''])
           (tree_walk ''/dst'' []) None ''/src'' ''/dst'' dryRunOptions =
         SyncStarted e0 [[Progressed ''/src''], [IncFilesCreated, Progressed (child ''/src'' ''a.txt'')]]
           None \<and>
         stats e0 = emptyStats\<lparr>FilesScanned := 2\<rparr> \<and>
         errorHandler e0 = NewErrorHandler 1000 \<and> copierCalls e0 = 0"
proof -
  have d: "distinct (map entPath (walkEntries (tree_walk ''/src'' [''a.txt'']) @
                                   walkEntries (tree_walk ''/dst'' [])))"
    by (rule distinct_src_dst) simp_all
  have w: "\<not> Workers dryRunOptions < 0"
    by (simp add: dryRunOptions_def mirrorOptions_def)
  have w1: "worker cr rm quiet_world ''/src'' ''/dst'' [''.'' \<mapsto> dir_record ''/dst''] dryRunOptions
              (dir_record ''/src'') = [Progressed ''/src'']" for cr rm
    by (simp add: worker_def syncFile_def Let_def quiet_world_def rel_root dir_record_def
        needsSync_def time_Equal_def)
  have w2: "worker cr rm quiet_world ''/src'' ''/dst'' [''.'' \<mapsto> dir_record ''/dst''] dryRunOptions
              (file_record (child ''/src'' ''a.txt'')) =
            [IncFilesCreated, Progressed (child ''/src'' ''a.txt'')]" for cr rm
    by (simp add: worker_def syncFile_def Let_def quiet_world_def rel_child file_record_def
        dryRunOptions_def)
  from Sync_start_started [OF tree_walk_ok tree_walk_ok d w,
      of "NewSyncEngine 4" demo_hashers quiet_world None "''/src''" "''/dst''"]
  show ?thesis
    by (simp add: records_of_tree_walk dispatch_None destMap_quiet_empty_dir w1 w2 engine_parts)
qed

lemma newer_tree_walk_paths:
  "map entPath (walkEntries (newer_tree_walk root names)) = root # map (child root) names"
  by (simp add: newer_tree_walk_def newer_dir_entry_at_def file_entry_at_def comp_def)

lemma newer_tree_walk_ok:
  "walkErr (newer_tree_walk root names) = None" "acquireErr (newer_tree_walk root names) = None"
  by (simp_all add: newer_tree_walk_def)

lemma newer_tree_walk_distinct:
  "distinct (map entPath (walkEntries (newer_tree_walk ''/src'' ns) @ walkEntries (tree_walk ''/dst'' ms))) =
   distinct (map entPath (walkEntries (tree_walk ''/src'' ns) @ walkEntries (tree_walk ''/dst'' ms)))"
  by (simp only: map_append newer_tree_walk_paths tree_walk_paths)

lemma records_of_newer_tree_walk:
  "records_of (scanner (NewSyncEngine g)) demo_hashers None (walkEntries (newer_tree_walk root names)) =
     newer_dir_record root # map (\<lambda>n. file_record (child root n)) names"
proof -
  have d: "record_of (scanner (NewSyncEngine g)) demo_hashers None (newer_dir_entry_at root) =
             [newer_dir_record root]"
    by (simp add: record_of_def getFileInfo_def newer_dir_entry_at_def newer_dir_record_def Let_def)
  have "records_of (scanner (NewSyncEngine g)) demo_hashers None (walkEntries (tree_walk root names)) =
          dir_record root # map (\<lambda>n. file_record (child root n)) names"
    by (rule records_of_tree_walk)
  moreover have "record_of (scanner (NewSyncEngine g)) demo_hashers None (dir_entry_at root) =
             [dir_record root]"
    by (simp add: record_of_def getFileInfo_def dir_entry_at_def dir_record_def Let_def)
  ultimately have "concat (map (record_of (scanner (NewSyncEngine g)) demo_hashers None)
                  (map (\<lambda>n. file_entry_at (child root n)) names)) =
          map (\<lambda>n. file_record (child root n)) names"
    by (simp add: records_of_def tree_walk_def)
  then show ?thesis
    by (simp add: records_of_def newer_tree_walk_def d)
qed

section \<open>Sync engine: a file that fails terminally\<close>

text \<open>
  C1. The claim: when exactly one source file fails terminally, \<open>ErrorsEncountered\<close>
  ends at exactly 1, the aggregator holds one classified error, and the run completes
  with counters for the other files. In the code \<open>syncFile\<close> increments the counter
  when the copy has failed and returns the error, and the goroutine of \<open>Sync\<close>
  increments it again for the returned error (\<open>worker_copy_failure\<close> above). Here the
  source holds ten files and the copy of \<open>/src/f3\<close> is denied at each of its three
  attempts: the run returns no error, nine files are created, the aggregator holds one
  Permission error, and \<open>ErrorsEncountered\<close> is 2. (\<open>FilesScanned\<close> is 11: the walk
  visits the root directory too.)
\<close>

theorem Sync_one_denied_file:
  "(case Sync (NewSyncEngine 4) demo_hashers s5_world (tree_walk ''/src'' ten_names)
           (tree_walk ''/dst'' []) None ''/src'' ''/dst'' mirrorOptions of
      Panicked \<Rightarrow> False
    | Returned e' r \<Rightarrow>
        r = None \<and> FilesScanned (stats e') = 11 \<and> FilesCreated (stats e') = 9 \<and>
        FilesChanged (stats e') = 9 \<and> copierCalls e' = 12 \<and>
        map Category (errors (errorHandler e')) = [ErrorCategoryPermission] \<and>
        ErrorsEncountered (stats e') = 2)"
proof -
  from s5_start obtain e0 where
    st: "Sync_start (NewSyncEngine 4) demo_hashers s5_world (tree_walk ''/src'' ten_names)
           (tree_walk ''/dst'' []) None ''/src'' ''/dst'' mirrorOptions =
         SyncStarted e0
           (map (worker (NewConflictResolver None) defaultRetryConfig s5_world ''/src'' ''/dst''
                   [''.'' \<mapsto> dir_record ''/dst''] mirrorOptions)
              (dir_record ''/src'' # map (\<lambda>n. file_record (child ''/src'' n)) ten_names)) None"
    and e0: "stats e0 = emptyStats\<lparr>FilesScanned := 11\<rparr>" "errorHandler e0 = NewErrorHandler 1000"
      "copierCalls e0 = 0"
    by blast
  show ?thesis
    unfolding Sync_def st sync_start.case s5_workers
    by (simp add: copied_def e0 emptyStats_def NewErrorHandler_def AddError_def
        denied_error_category)
qed

section \<open>Sync engine: the order of the counters\<close>

text \<open>
  The claim C2 as stated: \<open>FilesCreated + FilesModified \<le> FilesChanged\<close> at every
  point, dry runs included. A dry run over a source with one new file counts the file
  as created and never as changed.
\<close>

theorem dry_run_counterexample:
  "(case Sync (NewSyncEngine 4) demo_hashers quiet_world (tree_walk ''/src'' [''a.txt''])
           (tree_walk ''/dst'' []) None ''/src'' ''/dst'' dryRunOptions of
      Panicked \<Rightarrow> False
    | Returned e' r \<Rightarrow>
        r = None \<and> FilesCreated (stats e') = 1 \<and> FilesModified (stats e') = 0 \<and>
        FilesChanged (stats e') = 0 \<and>
        \<not> FilesCreated (stats e') + FilesModified (stats e') \<le> FilesChanged (stats e'))"
proof -
  from dry_run_start obtain e0 where
    st: "Sync_start (NewSyncEngine 4) demo_hashers quiet_world (tree_walk ''/src'' [''a.txt''])
           (tree_walk ''/dst'' []) None ''/src'' ''/dst'' dryRunOptions =
         SyncStarted e0 [[Progressed ''/src''], [IncFilesCreated, Progressed (child ''/src'' ''a.txt'')]]
           None"
    and e0: "stats e0 = emptyStats\<lparr>FilesScanned := 2\<rparr>"
    by blast
  show ?thesis
    unfolding Sync_def st sync_start.case
    by (simp add: e0 emptyStats_def)
qed

text \<open>
  Before the goroutines start (and when \<open>Sync\<close> returns or panics without starting
  any) all counters but \<open>FilesScanned\<close> are zero.
\<close>

lemma counters_ordered_before_start:
  assumes "Sync_start e hs w srcWalk dstWalk ctx source destination opts = SyncReturned e' err \<or>
           Sync_start e hs w srcWalk dstWalk ctx source destination opts = SyncPanicked e'"
  shows "FilesChanged (stats e') \<le> FilesCreated (stats e') + FilesModified (stats e') \<and>
         FilesCreated (stats e') + FilesModified (stats e') \<le> FilesScanned (stats e')"
proof -
  obtain sc1 r1 where s1: "Scan (scanner e) hs source srcWalk = (sc1, r1)"
    by (cases "Scan (scanner e) hs source srcWalk")
  obtain sc2 r2 where s2: "Scan sc1 hs destination dstWalk = (sc2, r2)"
    by (cases "Scan sc1 hs destination dstWalk")
  show ?thesis
  proof (cases r1)
    case (Inl x)
    with assms s1 show ?thesis
      by (auto simp: Sync_start_def resetStats_def Let_def emptyStats_def)
  next
    case (Inr sourceFiles)
    with assms s1 s2 show ?thesis
      by (cases r2)
         (auto simp: Sync_start_def resetStats_def Let_def emptyStats_def split_beta
            split: if_splits)
  qed
qed

text \<open>
  C2, amended. At every point of every interleaving of a run, dry or not, with or
  without directories to create:
  \<open>FilesChanged \<le> FilesCreated + FilesModified \<le> FilesScanned\<close>.
\<close>

theorem counters_ordered:
  assumes "Sync_start e hs w srcWalk dstWalk ctx source destination opts = SyncStarted e0 ws r"
    and "sync_reaches (e0, ws) (e', ws')"
  shows "FilesChanged (stats e') \<le> FilesCreated (stats e') + FilesModified (stats e') \<and>
         FilesCreated (stats e') + FilesModified (stats e') \<le> FilesScanned (stats e')"
proof -
  have "counters_inv (e', ws')"
    using counters_inv_reaches [OF assms(2) counters_inv_start [OF assms(1)]] .
  then show ?thesis
    using pending_nonneg [of excess ws', OF excess_nonneg]
      pending_nonneg [of counted ws', OF counted_nonneg]
    by (simp add: counters_inv_def)
qed

text \<open>The dry run above, at its end.\<close>

theorem counters_ordered_witness:
  "(case Sync (NewSyncEngine 4) demo_hashers quiet_world (tree_walk ''/src'' [''a.txt''])
           (tree_walk ''/dst'' []) None ''/src'' ''/dst'' dryRunOptions of
      Panicked \<Rightarrow> False
    | Returned e' r \<Rightarrow>
        FilesChanged (stats e') \<le> FilesCreated (stats e') + FilesModified (stats e') \<and>
        FilesCreated (stats e') + FilesModified (stats e') \<le> FilesScanned (stats e'))"
proof -
  from dry_run_start obtain e0 where
    st: "Sync_start (NewSyncEngine 4) demo_hashers quiet_world (tree_walk ''/src'' [''a.txt''])
           (tree_walk ''/dst'' []) None ''/src'' ''/dst'' dryRunOptions =
         SyncStarted e0 [[Progressed ''/src''], [IncFilesCreated, Progressed (child ''/src'' ''a.txt'')]]
           None"
    by blast
  from counters_ordered [OF st sync_reaches_sequential]
  show ?thesis
    unfolding Sync_def st sync_start.case by simp
qed

section \<open>Sync engine: a destination that cannot be scanned\<close>

lemma os_IsNotExist_WrapError: "\<not> os_IsNotExist (WrapError p e)"
  by (simp add: os_IsNotExist_def)

text \<open>
  C4. The claim: when the scan of the destination root fails with "not found", the
  run goes on with an empty destination set; any other destination scan error fails
  the run. In the code the walk's error reaches \<open>Sync\<close> wrapped by
  \<open>fmt.Errorf("failed to scan directory %s: %w", ...)\<close>, and \<open>os.IsNotExist\<close> does not
  look through that wrapping: whatever error the walk of the destination ends with,
  "not found" included, \<open>Sync\<close> returns the failure
  \<open>failed to scan destination directory\<close>, with the source entries counted as scanned
  and nothing else done.
\<close>

theorem Sync_destination_walk_error:
  assumes "scanned_source e hs source srcWalk = Inr sourceFiles"
    and "walkErr dstWalk = Some err"
  shows "(case Sync e hs w srcWalk dstWalk ctx source destination opts of
            Panicked \<Rightarrow> False
          | Returned e' r \<Rightarrow>
              r = Some (WrapError ''failed to scan destination directory: ''
                         (WrapError (''failed to scan directory '' @ destination @ '': '') err)) \<and>
              FilesScanned (stats e') = int (length sourceFiles))"
proof -
  obtain sc1 where s1: "Scan (scanner e) hs source srcWalk = (sc1, Inr sourceFiles)"
    using assms(1) by (cases "Scan (scanner e) hs source srcWalk") (simp add: scanned_source_def)
  obtain sc2 r2 where s2: "Scan sc1 hs destination dstWalk = (sc2, r2)"
    by (cases "Scan sc1 hs destination dstWalk")
  with assms(2) have r2: "r2 = Inl (WrapError (''failed to scan directory '' @ destination @ '': '') err)"
    by (simp add: Scan_def ScanWithFilter_def split: prod.splits)
  show ?thesis
    by (simp add: Sync_def Sync_start_def Let_def resetStats_def s1 s2 r2 os_IsNotExist_WrapError
        emptyStats_def)
qed

text \<open>A source with one file and a destination root that does not exist.\<close>

theorem Sync_destination_walk_error_witness:
  "(case Sync (NewSyncEngine 4) demo_hashers quiet_world (tree_walk ''/src'' [''a.txt''])
           (missing_dir_walk ''/dst'') None ''/src'' ''/dst'' mirrorOptions of
      Panicked \<Rightarrow> False
    | Returned e' r \<Rightarrow>
        r = Some (WrapError ''failed to scan destination directory: ''
                   (WrapError ''failed to scan directory /dst: ''
                      (PathError ''lstat'' ''/dst'' (Errno ENOENT)))) \<and>
        FilesScanned (stats e') = 2)"
proof -
  have d: "distinct (map entPath (walkEntries (tree_walk ''/src'' [''a.txt''])))"
    using root_not_child [of "''/src''" "[''a.txt'']"] by (simp add: tree_walk_paths)
  have a: "scanned_source (NewSyncEngine 4) demo_hashers ''/src'' (tree_walk ''/src'' [''a.txt'']) =
             Inr [dir_record ''/src'', file_record (child ''/src'' ''a.txt'')]"
    by (simp add: scanned_source_records [OF tree_walk_ok d] records_of_tree_walk)
  have b: "walkErr (missing_dir_walk ''/dst'') = Some (PathError ''lstat'' ''/dst'' (Errno ENOENT))"
    by (simp add: missing_dir_walk_def)
  show ?thesis
    using Sync_destination_walk_error [OF a b, where w = quiet_world and ctx = None
        and destination = "''/dst''" and opts = mirrorOptions]
    by (simp split: sync_outcome.splits)
qed

section \<open>Sync engine: mirroring twice\<close>

lemma needsSync_equal:
  "Size d = Size f \<Longrightarrow> ModTime d = ModTime f \<Longrightarrow> Checksum d = Checksum f \<Longrightarrow>
   \<not> needsSync f d opts"
  by (simp add: needsSync_def time_Equal_def)

lemma worker_in_sync_file:
  assumes "in_sync w source dm f"
  shows "worker cr rm w source destination dm opts f = [Progressed (Path f)]"
proof -
  from assms obtain rel d where r: "fp_Rel w source (Path f) = Inr rel" and d: "dm rel = Some d"
    and eq: "Size d = Size f" "ModTime d = ModTime f" "Checksum d = Checksum f"
    by (auto simp: in_sync_def split: sum.splits option.splits)
  have "\<not> needsSync f d opts" using eq by (rule needsSync_equal)
  with r d show ?thesis by (rule worker_in_sync)
qed

lemma syncFile_conflict_copy_free:
  "(syncFile_conflict cr w sf df dp = Inl (effs, r) \<longrightarrow> list_all is_copy_free effs) \<and>
   (syncFile_conflict cr w sf df dp = Inr effs \<longrightarrow> list_all is_copy_free effs)"
  by (auto simp: syncFile_conflict_def split: option.splits prod.splits ConflictResolution.splits)

lemma syncFile_directory:
  assumes "\<not> DryRun opts" and "IsDir sf"
  shows "list_all is_copy_free (fst (syncFile cr rm w source destination sf dm opts))"
proof (cases "fp_Rel w source (Path sf)")
  case (Inl err)
  then show ?thesis by (simp add: syncFile_def)
next
  case (Inr relPath)
  show ?thesis
  proof (cases "dm relPath")
    case None
    with Inr assms show ?thesis
      by (simp add: syncFile_def Let_def split: option.splits)
  next
    case (Some df)
    show ?thesis
    proof (cases "syncFile_conflict cr w sf df (fp_Join w destination relPath)")
      case (Inl r)
      obtain effs res where r: "r = (effs, res)" by (cases r)
      with Inl syncFile_conflict_copy_free [of cr w sf df "fp_Join w destination relPath" effs res]
      have "list_all is_copy_free effs" by simp
      with Inr Some Inl r assms show ?thesis by (simp add: syncFile_def Let_def)
    next
      case (Inr effs)
      with syncFile_conflict_copy_free [of cr w sf df "fp_Join w destination relPath" effs]
      have "list_all is_copy_free effs" by simp
      with \<open>fp_Rel w source (Path sf) = Inr relPath\<close> Some Inr assms show ?thesis
        by (simp add: syncFile_def Let_def split: option.splits)
    qed
  qed
qed

lemma worker_directory:
  assumes "\<not> DryRun opts" and "IsDir f"
  shows "list_all is_copy_free (worker cr rm w source destination dm opts f)"
proof -
  obtain effs r where s: "syncFile cr rm w source destination f dm opts = (effs, r)"
    by (cases "syncFile cr rm w source destination f dm opts")
  with syncFile_directory [OF assms, of cr rm w source destination dm]
  have "list_all is_copy_free effs" by simp
  then show ?thesis by (cases r) (simp_all add: worker_def s)
qed

lemma copy_free_inv_step:
  assumes "sync_step c c'" and "copy_free_inv e0 k c"
  shows "copy_free_inv e0 k c'"
  using assms
proof (cases rule: sync_step.cases)
  case (step i ws x rest e)
  from assms(2) step(1) have inv: "copierCalls e = copierCalls e0" "errorHandler e = errorHandler e0"
    "BytesTransferred (stats e) = 0" "FilesModified (stats e) = 0" "FilesChanged (stats e) = 0"
    "FilesCreated (stats e) + pending counted ws \<le> k" "\<forall>w \<in> set ws. list_all is_copy_free w"
    by (simp_all add: copy_free_inv_def)
  from step(3,4) have "x # rest \<in> set ws" by (metis nth_mem)
  with inv(7) have x: "is_copy_free x" and rest: "list_all is_copy_free rest" by auto
  have all: "\<forall>w \<in> set (ws[i := rest]). list_all is_copy_free w"
    using inv(7) rest set_update_subset_insert [of ws i rest] by auto
  have pc: "pending counted (ws[i := rest]) = pending counted ws - counted (x # rest) + counted rest"
    using step(3,4) by (simp add: pending_update)
  show ?thesis
    unfolding step(2) copy_free_inv_def prod.case pc
    using inv(1-6) all x by (cases x) (simp_all add: counted_def)
qed

lemma copy_free_inv_reaches:
  assumes "sync_reaches c c'" and "copy_free_inv e0 k c"
  shows "copy_free_inv e0 k c'"
  using assms unfolding sync_reaches_def
  by (induction rule: rtranclp_induct) (auto intro: copy_free_inv_step)

lemma dispatch_subset: "set (fst (dispatch ctx fs)) \<subseteq> set fs"
proof (induction fs arbitrary: ctx)
  case Nil
  then show ?case by simp
next
  case (Cons f fs)
  obtain q ctx' where p: "ctx_poll ctx = (q, ctx')" by (cases "ctx_poll ctx")
  obtain started res where d: "dispatch ctx' fs = (started, res)" by (cases "dispatch ctx' fs")
  with Cons [of ctx'] have "set started \<subseteq> set fs" by simp
  with p d show ?case by (cases q) auto
qed

lemma dispatch_filter_length:
  "length (filter P (fst (dispatch ctx fs))) \<le> length (filter P fs)"
proof (induction fs arbitrary: ctx)
  case Nil
  then show ?case by simp
next
  case (Cons f fs)
  obtain q ctx' where p: "ctx_poll ctx = (q, ctx')" by (cases "ctx_poll ctx")
  obtain started res where d: "dispatch ctx' fs = (started, res)" by (cases "dispatch ctx' fs")
  with Cons [of ctx'] have "length (filter P started) \<le> length (filter P fs)" by simp
  with p d show ?case by (cases q) auto
qed

lemma pending_counted_dirs:
  assumes "\<forall>f \<in> set fs. IsDir f \<or> in_sync w source dm f"
  shows "pending counted (map (worker cr rm w source destination dm opts) fs) \<le>
           int (length (filter IsDir fs))"
  using assms
proof (induction fs)
  case Nil
  then show ?case by (simp add: pending_def)
next
  case (Cons f fs)
  then have ih: "pending counted (map (worker cr rm w source destination dm opts) fs) \<le>
           int (length (filter IsDir fs))" by simp
  show ?case
  proof (cases "IsDir f")
    case True
    with ih worker_shape [of cr rm w source destination dm opts f] show ?thesis
      by (simp add: pending_def)
  next
    case False
    with Cons.prems have "in_sync w source dm f" by simp
    from worker_in_sync_file [OF this, of cr rm destination opts]
    have "counted (worker cr rm w source destination dm opts f) = 0"
      by (simp add: counted_def)
    with False ih show ?thesis by (simp add: pending_def)
  qed
qed

lemma os_MkdirAll_existing:
  assumes "failMkdirAll env = None" and "fs path = Some (Directory m t)"
  shows "os_MkdirAll env fs path perm = (fs, None)"
  using assms by (simp add: os_MkdirAll_def)

lemma newer_root_worker:
  "worker (NewConflictResolver None) rm quiet_world ''/src'' ''/dst''
     [''.'' \<mapsto> dir_record ''/dst'', ''a.txt'' \<mapsto> file_record (child ''/dst'' ''a.txt'')]
     mirrorOptions (newer_dir_record ''/src'') =
   [IncConflictsFound, IncConflictsResolved, IncFilesCreated, Progressed ''/src'']"
  by (simp add: worker_def syncFile_def syncFile_conflict_def Let_def quiet_world_def rel_root
      newer_dir_record_def dir_record_def needsSync_def time_Equal_def DetectConflict_def
      ResolveConflict_def NewConflictResolver_def resolveByNewest_def time_After_def
      mirrorOptions_def never_def)

lemma synced_file_worker:
  "worker cr rm quiet_world ''/src'' ''/dst''
     [''.'' \<mapsto> dir_record ''/dst'', ''a.txt'' \<mapsto> file_record (child ''/dst'' ''a.txt'')]
     mirrorOptions (file_record (child ''/src'' ''a.txt'')) =
   [Progressed (child ''/src'' ''a.txt'')]"
proof -
  have "in_sync quiet_world ''/src''
          [''.'' \<mapsto> dir_record ''/dst'', ''a.txt'' \<mapsto> file_record (child ''/dst'' ''a.txt'')]
          (file_record (child ''/src'' ''a.txt''))"
    by (simp add: in_sync_def quiet_world_def rel_child file_record_def)
  from worker_in_sync_file [OF this] show ?thesis by (simp add: file_record_def)
qed

lemma second_mirror_start:
  "\<exists>e0. Sync_start (NewSyncEngine 4) demo_hashers quiet_world (newer_tree_walk ''/src'' [''a.txt''])
           (tree_walk ''/dst'' [''a.txt'']) None ''/src'' ''/dst'' mirrorOptions =
         SyncStarted e0
           [[IncConflictsFound, IncConflictsResolved, IncFilesCreated, Progressed ''/src''],
            [Progressed (child ''/src'' ''a.txt'')]] None \<and>
         stats e0 = emptyStats\<lparr>FilesScanned := 2\<rparr> \<and>
         errorHandler e0 = NewErrorHandler 1000 \<and> copierCalls e0 = 0"
proof -
  have "distinct (map entPath (walkEntries (tree_walk ''/src'' [''a.txt'']) @
                                walkEntries (tree_walk ''/dst'' [''a.txt''])))"
    by (rule distinct_src_dst) simp_all
  then have d: "distinct (map entPath (walkEntries (newer_tree_walk ''/src'' [''a.txt'']) @
                                       walkEntries (tree_walk ''/dst'' [''a.txt''])))"
    by (simp only: newer_tree_walk_distinct)
  from Sync_start_started [OF newer_tree_walk_ok tree_walk_ok d mirror_workers_ok,
      where e = "NewSyncEngine 4" and hs = demo_hashers and w = quiet_world and ctx = None
        and source = "''/src''" and destination = "''/dst''"]
  show ?thesis
    by (simp add: records_of_tree_walk records_of_newer_tree_walk dispatch_None destMap_mirrored
        engine_parts newer_root_worker synced_file_worker)
qed

text \<open>
  The run in terms of the records the two scans return: when every scanned source
  record that is not a directory is in sync with the destination record at its
  relative path, and the run is not a dry run, then at every point of every
  interleaving no call of the copier has been made, \<open>BytesTransferred\<close>,
  \<open>FilesModified\<close> and \<open>FilesChanged\<close> are zero, and \<open>FilesCreated\<close> is at most the
  number of scanned directories.
\<close>

lemma in_sync_records_copy_nothing:
  assumes "Sync_start e hs w srcWalk dstWalk ctx source destination opts = SyncStarted e0 ws r"
    and "scanned_source e hs source srcWalk = Inr sourceFiles"
    and "\<not> DryRun opts"
    and "\<forall>f \<in> set sourceFiles. IsDir f \<or>
           in_sync w source
             (destMap_of w destination (scanned_dest e hs source srcWalk destination dstWalk)) f"
    and "sync_reaches (e0, ws) (e', ws')"
  shows "(\<forall>f d. Size d = Size f \<and> ModTime d = ModTime f \<and> Checksum d = Checksum f \<longrightarrow>
            \<not> needsSync f d opts) \<and>
         copierCalls e' = copierCalls e \<and>
         BytesTransferred (stats e') = 0 \<and> FilesModified (stats e') = 0 \<and>
         FilesChanged (stats e') = 0 \<and>
         FilesCreated (stats e') \<le> int (length (filter IsDir sourceFiles))"
proof -
  let ?dm = "destMap_of w destination (scanned_dest e hs source srcWalk destination dstWalk)"
  let ?wk = "worker (resolver e) (retryManager e) w source destination ?dm opts"
  let ?k = "int (length (filter IsDir sourceFiles))"
  from Sync_start_workers [OF assms(1)] assms(2) have
    ws: "ws = map ?wk (fst (dispatch ctx sourceFiles))"
    and st: "stats e0 = emptyStats\<lparr>FilesScanned := int (length sourceFiles)\<rparr>"
    and cc: "copierCalls e0 = copierCalls e"
    by auto
  have started: "\<forall>f \<in> set (fst (dispatch ctx sourceFiles)). IsDir f \<or> in_sync w source ?dm f"
    using assms(4) dispatch_subset [of ctx sourceFiles] by blast
  have free: "\<forall>w' \<in> set ws. list_all is_copy_free w'"
  proof
    fix w' assume "w' \<in> set ws"
    then obtain f where f: "f \<in> set (fst (dispatch ctx sourceFiles))" and w': "w' = ?wk f"
      unfolding ws by auto
    from f started have "IsDir f \<or> in_sync w source ?dm f" by blast
    then show "list_all is_copy_free w'"
    proof
      assume "IsDir f"
      from worker_directory [OF assms(3) this] w' show ?thesis by simp
    next
      assume "in_sync w source ?dm f"
      from worker_in_sync_file [OF this] w' show ?thesis by simp
    qed
  qed
  have "pending counted ws \<le> int (length (filter IsDir (fst (dispatch ctx sourceFiles))))"
    unfolding ws by (rule pending_counted_dirs) (rule started)
  with dispatch_filter_length [of IsDir ctx sourceFiles]
  have "pending counted ws \<le> ?k" by linarith
  with free have "copy_free_inv e0 ?k (e0, ws)"
    by (simp add: copy_free_inv_def st emptyStats_def)
  from copy_free_inv_reaches [OF assms(5) this]
  have "copierCalls e' = copierCalls e0" and "BytesTransferred (stats e') = 0"
    and "FilesModified (stats e') = 0" and "FilesChanged (stats e') = 0"
    and "FilesCreated (stats e') + pending counted ws' \<le> ?k"
    by (simp_all add: copy_free_inv_def)
  then show ?thesis
    using pending_nonneg [of counted ws', OF counted_nonneg]
    by (simp add: cc needsSync_equal)
qed

text \<open>
  From the records to the trees: for an entry for which the cache is fresh, the scan
  returns the record of the file as it is on disk.
\<close>

lemma cache_fresh_empty:
  "cache_fresh (ClearCache s) hs ent" "cache_fresh (scanner (NewSyncEngine g)) hs ent"
  by (simp_all add: cache_fresh_def ClearCache_def NewSyncEngine_def NewFileScanner_def
      split: sum.splits)

lemma disk_records_file:
  assumes "entInfo ent = Inr st" and "\<not> stIsDir st" and "0 < sint (stSize st)"
    and "entOpen ent = None" and "entRead ent = Inr bs"
  shows "disk_records s hs [ent] =
           (case calculateChecksum s hs (Inr bs) of
              Inl e \<Rightarrow> [bare_record (entPath ent) st]
            | Inr c \<Rightarrow> [(bare_record (entPath ent) st)\<lparr>Checksum := c, ChecksumAlgo := checksumAlgo s\<rparr>])"
  using assms
  by (simp add: disk_records_def records_of_def record_of_def getFileInfo_def getChecksum_def
      calculateChecksum_def ClearCache_def bare_record_def Let_def split: sum.splits)

lemma calculateChecksum_ClearCache:
  "calculateChecksum (ClearCache s) hs rd = calculateChecksum s hs rd"
  by (simp add: calculateChecksum_def ClearCache_def)

lemma record_of_fresh:
  assumes "cache_fresh s hs ent"
  shows "record_of s hs flt ent = record_of (ClearCache s) hs flt ent"
proof (cases "entInfo ent")
  case (Inl e)
  then show ?thesis by (simp add: record_of_def getFileInfo_def)
next
  case (Inr st)
  show ?thesis
  proof (cases "cache s (entPath ent)")
    case None
    have "snd (getFileInfo s hs ent) = snd (getFileInfo (ClearCache s) hs ent)"
      by (rule getFileInfo_depends) (simp_all add: None ClearCache_def)
    then show ?thesis by (simp add: record_of_def)
  next
    case (Some entry)
    have c: "calculateChecksum (s\<lparr>cache := Map.empty\<rparr>) hs rd = calculateChecksum s hs rd" for rd
      using calculateChecksum_ClearCache [of s hs rd] by (simp add: ClearCache_def)
    have "snd (getFileInfo s hs ent) = snd (getFileInfo (ClearCache s) hs ent)"
      using assms Inr Some
      by (auto simp add: cache_fresh_def getFileInfo_def getChecksum_def ClearCache_def c Let_def
          split: sum.splits option.splits)
    then show ?thesis by (simp add: record_of_def)
  qed
qed

lemma records_of_fresh:
  assumes "\<forall>ent \<in> set ents. cache_fresh s hs ent"
  shows "records_of s hs None ents = disk_records s hs ents"
proof -
  have "map (record_of s hs None) ents = map (record_of (ClearCache s) hs None) ents"
    using assms by (simp add: record_of_fresh cong: map_cong)
  then show ?thesis unfolding records_of_def disk_records_def by (rule arg_cong)
qed

text \<open>
  The claim C5 as stated: after a successful mirror, for every pair of trees, a second
  mirror performs zero copies and leaves \<open>FilesCreated\<close> at zero. Two runs show
  otherwise.

  First: the engine compares directories too, and it does not set the modification
  time of a destination directory (\<open>os.MkdirAll\<close> on an existing directory changes
  nothing, see \<open>os_MkdirAll_existing\<close>). The destination holds the copy of \<open>a.txt\<close>
  that a mirror leaves (same size, time and digest), and the source root was modified
  after the destination root: the run returns no error and calls the copier for no
  file, the Newest rule picks the source directory, and the root is counted as
  created.

  Second: two mirrors on one engine. Source and destination hold \<open>a.txt\<close> with the
  same size and the same modification time; before the first mirror the contents
  differ (\<open>hello\<close>, \<open>world\<close>), so the first mirror copies the file. For the second
  mirror the two files are equal on disk in size, modification time and digest
  (\<open>b3-532\<close>), but the destination scan returns the digest cached before the copy
  (\<open>b3-552\<close>): the cache entry is valid by whole seconds and size. The file is
  copied again.
\<close>

theorem second_mirror_counterexample:
  "(case Sync (NewSyncEngine 4) demo_hashers quiet_world (newer_tree_walk ''/src'' [''a.txt''])
           (tree_walk ''/dst'' [''a.txt'']) None ''/src'' ''/dst'' mirrorOptions of
      Panicked \<Rightarrow> False
    | Returned e' r \<Rightarrow>
        r = None \<and> copierCalls e' = 0 \<and> FilesCreated (stats e') = 1 \<and>
        \<not> FilesCreated (stats e') = 0) \<and>
   (case Sync (NewSyncEngine 4) content_hashers quiet_world (tree_walk ''/src'' [''a.txt''])
           (other_content_walk ''/dst'' [''a.txt'']) None ''/src'' ''/dst'' mirrorOptions of
      Panicked \<Rightarrow> False
    | Returned e1 r1 \<Rightarrow>
        r1 = None \<and> copierCalls e1 = 1 \<and>
        map Checksum (disk_records (scanner e1) content_hashers
                        (walkEntries (tree_walk ''/src'' [''a.txt'']))) = [[], ''b3-532''] \<and>
        map Checksum (disk_records (scanner e1) content_hashers
                        (walkEntries (tree_walk ''/dst'' [''a.txt'']))) = [[], ''b3-532''] \<and>
        map Checksum (scanned_dest e1 content_hashers ''/src'' (tree_walk ''/src'' [''a.txt''])
                        ''/dst'' (tree_walk ''/dst'' [''a.txt''])) = [[], ''b3-552''] \<and>
        (case Sync e1 content_hashers quiet_world (tree_walk ''/src'' [''a.txt''])
                (tree_walk ''/dst'' [''a.txt'']) None ''/src'' ''/dst'' mirrorOptions of
           Panicked \<Rightarrow> False
         | Returned e2 r2 \<Rightarrow>
             r2 = None \<and> copierCalls e2 = 2 \<and> FilesModified (stats e2) = 1 \<and>
             FilesChanged (stats e2) = 1 \<and> BytesTransferred (stats e2) = 5))"
proof -
  from second_mirror_start obtain e0 where
    st: "Sync_start (NewSyncEngine 4) demo_hashers quiet_world (newer_tree_walk ''/src'' [''a.txt''])
           (tree_walk ''/dst'' [''a.txt'']) None ''/src'' ''/dst'' mirrorOptions =
         SyncStarted e0
           [[IncConflictsFound, IncConflictsResolved, IncFilesCreated, Progressed ''/src''],
            [Progressed (child ''/src'' ''a.txt'')]] None"
    and e0: "stats e0 = emptyStats\<lparr>FilesScanned := 2\<rparr>" "copierCalls e0 = 0"
    by blast
  have "case Sync (NewSyncEngine 4) demo_hashers quiet_world (newer_tree_walk ''/src'' [''a.txt''])
           (tree_walk ''/dst'' [''a.txt'']) None ''/src'' ''/dst'' mirrorOptions of
      Panicked \<Rightarrow> False
    | Returned e' r \<Rightarrow>
        r = None \<and> copierCalls e' = 0 \<and> FilesCreated (stats e') = 1 \<and>
        \<not> FilesCreated (stats e') = 0"
    unfolding Sync_def st sync_start.case
    by (simp add: e0 emptyStats_def)
  moreover have "case Sync (NewSyncEngine 4) content_hashers quiet_world (tree_walk ''/src'' [''a.txt''])
           (other_content_walk ''/dst'' [''a.txt'']) None ''/src'' ''/dst'' mirrorOptions of
      Panicked \<Rightarrow> False
    | Returned e1 r1 \<Rightarrow>
        r1 = None \<and> copierCalls e1 = 1 \<and>
        map Checksum (disk_records (scanner e1) content_hashers
                        (walkEntries (tree_walk ''/src'' [''a.txt'']))) = [[], ''b3-532''] \<and>
        map Checksum (disk_records (scanner e1) content_hashers
                        (walkEntries (tree_walk ''/dst'' [''a.txt'']))) = [[], ''b3-532''] \<and>
        map Checksum (scanned_dest e1 content_hashers ''/src'' (tree_walk ''/src'' [''a.txt''])
                        ''/dst'' (tree_walk ''/dst'' [''a.txt''])) = [[], ''b3-552''] \<and>
        (case Sync e1 content_hashers quiet_world (tree_walk ''/src'' [''a.txt''])
                (tree_walk ''/dst'' [''a.txt'']) None ''/src'' ''/dst'' mirrorOptions of
           Panicked \<Rightarrow> False
         | Returned e2 r2 \<Rightarrow>
             r2 = None \<and> copierCalls e2 = 2 \<and> FilesModified (stats e2) = 1 \<and>
             FilesChanged (stats e2) = 1 \<and> BytesTransferred (stats e2) = 5)"
    by code_simp
  ultimately show ?thesis by (rule conjI)
qed

text \<open>
  C5, amended. \<open>needsSync\<close> is false for every pair of records of equal size, equal
  modification time and equal digest, whatever the options. Take two trees that are
  walked without an error and in which no path is walked twice, an engine whose cache
  is fresh for every walked entry (as it is for a new engine and after \<open>ClearCache\<close>,
  see \<open>cache_fresh_empty\<close>), and options that are not a dry run and have no negative
  worker count (as those of \<open>Mirror\<close>). If every regular file of the source tree has,
  at its relative path, a destination file of equal size, equal modification time and
  equal digest of its bytes (\<open>disk_records\<close>, \<open>in_sync\<close>), then the run
  starts its goroutines, and at every point of every interleaving, and in the engine
  that \<open>Sync\<close> returns, no call of the copier has been made, \<open>BytesTransferred\<close>,
  \<open>FilesModified\<close> and \<open>FilesChanged\<close> are zero, and \<open>FilesCreated\<close> is at most the
  number of directories of the source tree.
\<close>

theorem mirrored_trees_copy_nothing:
  assumes "walkErr srcWalk = None" and "acquireErr srcWalk = None"
    and "walkErr dstWalk = None" and "acquireErr dstWalk = None"
    and "distinct (map entPath (walkEntries srcWalk @ walkEntries dstWalk))"
    and "\<not> DryRun opts" and "\<not> Workers opts < 0"
    and "\<forall>ent \<in> set (walkEntries srcWalk @ walkEntries dstWalk). cache_fresh (scanner e) hs ent"
    and "\<forall>f \<in> set (disk_records (scanner e) hs (walkEntries srcWalk)). IsDir f \<or>
           in_sync w source
             (destMap_of w destination (disk_records (scanner e) hs (walkEntries dstWalk))) f"
  shows "(\<forall>f d. Size d = Size f \<and> ModTime d = ModTime f \<and> Checksum d = Checksum f \<longrightarrow>
            \<not> needsSync f d opts) \<and>
         (\<exists>e0 ws r.
            Sync_start e hs w srcWalk dstWalk ctx source destination opts = SyncStarted e0 ws r \<and>
            (\<forall>e' ws'. sync_reaches (e0, ws) (e', ws') \<longrightarrow>
               copierCalls e' = copierCalls e \<and>
               BytesTransferred (stats e') = 0 \<and> FilesModified (stats e') = 0 \<and>
               FilesChanged (stats e') = 0 \<and>
               FilesCreated (stats e') \<le>
                 int (length (filter IsDir (disk_records (scanner e) hs (walkEntries srcWalk)))))) \<and>
         (case Sync e hs w srcWalk dstWalk ctx source destination opts of
            Panicked \<Rightarrow> False
          | Returned e' r \<Rightarrow>
              copierCalls e' = copierCalls e \<and>
              BytesTransferred (stats e') = 0 \<and> FilesModified (stats e') = 0 \<and>
              FilesChanged (stats e') = 0 \<and>
              FilesCreated (stats e') \<le>
                int (length (filter IsDir (disk_records (scanner e) hs (walkEntries srcWalk)))))"
proof -
  let ?src = "disk_records (scanner e) hs (walkEntries srcWalk)"
  let ?dst = "disk_records (scanner e) hs (walkEntries dstWalk)"
  from Sync_start_started [OF assms(1-5,7), where e = e and hs = hs and w = w and ctx = ctx
      and source = source and destination = destination]
  obtain e0 ws r where
    st: "Sync_start e hs w srcWalk dstWalk ctx source destination opts = SyncStarted e0 ws r"
    by blast
  have ds: "distinct (map entPath (walkEntries srcWalk))" using assms(5) by simp
  have fs: "\<forall>ent \<in> set (walkEntries srcWalk). cache_fresh (scanner e) hs ent"
    and fd: "\<forall>ent \<in> set (walkEntries dstWalk). cache_fresh (scanner e) hs ent"
    using assms(8) by simp_all
  have src: "scanned_source e hs source srcWalk = Inr ?src"
    by (simp add: scanned_source_records [OF assms(1,2) ds] records_of_fresh [OF fs])
  have dst: "scanned_dest e hs source srcWalk destination dstWalk = ?dst"
    by (simp add: scanned_dest_records [OF assms(1-5)] records_of_fresh [OF fd])
  have sync: "\<forall>f \<in> set ?src. IsDir f \<or>
           in_sync w source
             (destMap_of w destination (scanned_dest e hs source srcWalk destination dstWalk)) f"
    using assms(9) by (simp only: dst)
  note run = in_sync_records_copy_nothing [OF st src assms(6) sync]
  have reach: "\<forall>e' ws'. sync_reaches (e0, ws) (e', ws') \<longrightarrow>
               copierCalls e' = copierCalls e \<and>
               BytesTransferred (stats e') = 0 \<and> FilesModified (stats e') = 0 \<and>
               FilesChanged (stats e') = 0 \<and>
               FilesCreated (stats e') \<le> int (length (filter IsDir ?src))"
    using run by blast
  have last: "sync_reaches (e0, ws) (foldl apply_effect e0 (concat ws), map (\<lambda>w. []) ws)"
    by (rule sync_reaches_sequential)
  have "case Sync e hs w srcWalk dstWalk ctx source destination opts of
            Panicked \<Rightarrow> False
          | Returned e' r \<Rightarrow>
              copierCalls e' = copierCalls e \<and>
              BytesTransferred (stats e') = 0 \<and> FilesModified (stats e') = 0 \<and>
              FilesChanged (stats e') = 0 \<and>
              FilesCreated (stats e') \<le> int (length (filter IsDir ?src))"
    unfolding Sync_def st sync_start.case sync_outcome.case
    using reach last by blast
  moreover have "\<forall>f d. Size d = Size f \<and> ModTime d = ModTime f \<and> Checksum d = Checksum f \<longrightarrow>
            \<not> needsSync f d opts"
    by (simp add: needsSync_equal)
  ultimately show ?thesis using st reach by blast
qed

text \<open>
  A mirror and a second mirror on the same engine. The first one finds \<open>/dst\<close>
  empty and copies \<open>a.txt\<close> (one call of the copier; the cache then holds the digest
  of \<open>/src/a.txt\<close>). The second one finds the copy, calls the copier for no file and
  leaves the counters at zero.
\<close>

theorem mirrored_trees_copy_nothing_witness:
  "copierCalls first_mirror_engine = 1 \<and>
   cache (scanner first_mirror_engine) (child ''/src'' ''a.txt'') =
     Some \<lparr>checksum = ''b3-5'', modTime = 1, entrySize = 5\<rparr> \<and>
   (case Sync first_mirror_engine demo_hashers quiet_world (tree_walk ''/src'' [''a.txt''])
           (tree_walk ''/dst'' [''a.txt'']) None ''/src'' ''/dst'' mirrorOptions of
      Panicked \<Rightarrow> False
    | Returned e' r \<Rightarrow>
        copierCalls e' = 1 \<and> BytesTransferred (stats e') = 0 \<and> FilesModified (stats e') = 0 \<and>
        FilesChanged (stats e') = 0 \<and> FilesCreated (stats e') \<le> 1)"
proof -
  let ?e = first_mirror_engine
  let ?src = "tree_walk ''/src'' [''a.txt'']"
  let ?dst = "tree_walk ''/dst'' [''a.txt'']"
  have c: "copierCalls ?e = 1"
    by code_simp
  have k: "cache (scanner ?e) (child ''/src'' ''a.txt'') =
             Some \<lparr>checksum = ''b3-5'', modTime = 1, entrySize = 5\<rparr>"
    by code_simp
  have d: "distinct (map entPath (walkEntries ?src @ walkEntries ?dst))"
    by (rule distinct_src_dst) simp_all
  have dry: "\<not> DryRun mirrorOptions" by (simp add: mirrorOptions_def)
  have fresh: "\<forall>ent \<in> set (walkEntries ?src @ walkEntries ?dst). cache_fresh (scanner ?e) demo_hashers ent"
    by code_simp
  have sync: "\<forall>f \<in> set (disk_records (scanner ?e) demo_hashers (walkEntries ?src)). IsDir f \<or>
           in_sync quiet_world ''/src''
             (destMap_of quiet_world ''/dst'' (disk_records (scanner ?e) demo_hashers (walkEntries ?dst))) f"
    by code_simp
  have n: "length (filter IsDir (disk_records (scanner ?e) demo_hashers (walkEntries ?src))) = 1"
    by code_simp
  from mirrored_trees_copy_nothing [OF tree_walk_ok tree_walk_ok d dry mirror_workers_ok fresh sync,
      where ctx = None]
  show ?thesis
    by (simp add: c k n split: sync_outcome.splits)
qed

end
